theory Spec2Isabelle
  imports Complex_Main "HOL-Library.Char_ord" "HOL-Library.List_Lexorder" "HOL-Library.Multiset"
begin

section \<open>Data model of script\_validacao\_nfe.py\<close>

text \<open>
  Conventions of the embedding.
  \<^item> In the grouping, the reconciliation and the summary a \<open>Decimal\<close> is a finite currency
    value, modelled by the rational number it denotes (type \<open>rat\<close>), and \<open>Decimal\<close>
    addition, subtraction, \<open>abs\<close> and comparison are the exact operations on \<open>rat\<close>: the
    special values (NaN, Infinity) and the rounding of sums and differences to the 28
    significant digits of the default context are outside that part of the model. The
    currency parser is modelled with the special values and with the precision limit of
    \<open>quantize\<close> (type \<open>pydecimal\<close> below), and the ingestion says where a converted value
    leaves the finite values.
  \<^item> An \<open>int\<close> is one that \<open>str\<close> converts: from Python 3.11 on, \<open>str\<close> raises \<open>ValueError\<close>
    on an \<open>int\<close> of more than 4300 digits (a configurable limit); no spreadsheet cell
    holds such a number, and it is outside the model.
  \<^item> A \<open>date\<close> is modelled by its proleptic ordinal (type \<open>int\<close>), so that the number of
    days between two dates is their difference.
  \<^item> A Python \<open>str\<close> is a \<open>string\<close>; the order on strings is the lexicographic order on
    character codes, which is what Python's \<open>sorted\<close> uses.
  \<^item> A Python \<open>set\<close> of strings is a list of its elements in the (arbitrary) order in
    which the set is iterated; the model only reads it through \<open>remdups\<close> and \<open>set\<close>, so
    any list denotes the set of its elements.
  \<^item> A \<open>dict\<close> keeps insertion order: it is an association list with distinct keys.
  \<^item> Printing to the terminal is not modelled.
\<close>

type_synonym decimal = rat
type_synonym date = int

record NFe =
  numero :: string
  data_emissao :: date
  cnpj_emitente :: string
  cnpj_destinatario :: string
  valor :: decimal
  xml_path :: string

record TransacaoOriginal =
  numeros_nfe :: "string list"
  data_abastecimento :: date
  cnpj_posto :: string
  cnpj_empresa :: string
  valor_boleto :: decimal
  postergado :: string
  linha :: int
  texto_original :: string
  eh_cancelamento :: bool
  eh_estorno :: bool

text \<open>\<open>len(self.numeros_nfe) > 1\<close> on a set: more than one distinct element.\<close>

definition eh_agrupamento :: "TransacaoOriginal \<Rightarrow> bool" where
  "eh_agrupamento t = (length (remdups (numeros_nfe t)) > 1)"

text \<open>
  The fields of \<open>GrupoNFe\<close> that share a name with a field of \<open>TransacaoOriginal\<close>
  carry the prefix \<open>grupo_\<close>.
\<close>

record GrupoNFe =
  numero_nfe :: string
  grupo_data_abastecimento :: date
  grupo_cnpj_posto :: string
  grupo_cnpj_empresa :: string
  valor_planilha :: decimal
  grupo_postergado :: string
  transacoes_individuais :: "TransacaoOriginal list"
  transacoes_agrupadas :: "TransacaoOriginal list"
  linhas :: "int list"

definition tem_individual :: "GrupoNFe \<Rightarrow> bool" where
  "tem_individual g = (length (transacoes_individuais g) > 0)"

definition tem_agrupado :: "GrupoNFe \<Rightarrow> bool" where
  "tem_agrupado g = (length (transacoes_agrupadas g) > 0)"

definition tipo_origem :: "GrupoNFe \<Rightarrow> string" where
  "tipo_origem g =
     (if tem_individual g \<and> tem_agrupado g then ''AMBOS''
      else if tem_individual g then ''INDIVIDUAL''
      else if tem_agrupado g then ''AGRUPADO''
      else ''NENHUM'')"

text \<open>
  The free-text reason of a result is an f-string; the model keeps its shape and the
  values that are formatted into it.
\<close>

datatype motivo_texto =
    XML_nao_encontrado
  | Postergada int int
  | Match_exato
  | Divergencia_so_agrupado decimal
  | Divergencia decimal

record Resultado =
  tipo :: string
  grupo :: GrupoNFe
  nfe :: "NFe option"
  diferenca :: decimal
  dias_postergados :: int
  motivo :: motivo_texto
  grupo_divergencia_id :: "int option"

record Resumo =
  valor_do_boleto :: decimal
  identicas :: decimal
  agrupadas :: decimal
  divergentes :: decimal
  desconsideradas :: decimal
  nao_encontradas :: decimal
  cancelamento :: decimal
  estornos :: decimal
  total_resumo :: decimal
  valor_a_pagar :: decimal
  diferenca_validacao :: decimal

record Config =
  CNPJ_EMPRESA :: string
  DATA_FECHAMENTO :: date
  PERIODO_MAXIMO_DIAS :: int
  TOLERANCIA_VALOR :: decimal

text \<open>The class attributes of \<open>Config\<close> in the script.\<close>

definition config_padrao :: Config where
  "config_padrao =
     \<lparr> CNPJ_EMPRESA = ''17122471000175'',
       DATA_FECHAMENTO = 0,
       PERIODO_MAXIMO_DIAS = 60,
       TOLERANCIA_VALOR = 101 / 100 \<rparr>"

datatype py_error = KeyError | IndexError | InvalidOperation | ValueError

section \<open>Reconciliation engine\<close>

definition calcular_dias_postergados :: "date \<Rightarrow> date \<Rightarrow> int" where
  "calcular_dias_postergados data_abast data_fechamento = max 0 (data_fechamento - data_abast)"

definition confrontar_grupo :: "GrupoNFe \<Rightarrow> (string \<rightharpoonup> NFe) \<Rightarrow> Config \<Rightarrow> Resultado" where
  "confrontar_grupo g nfes_index config =
     (case nfes_index (numero_nfe g) of
        None \<Rightarrow>
          (let dias = calcular_dias_postergados (grupo_data_abastecimento g) (DATA_FECHAMENTO config)
           in \<lparr> tipo = ''NAO_ENCONTRADA'', grupo = g, nfe = None,
                diferenca = valor_planilha g, dias_postergados = dias,
                motivo = XML_nao_encontrado, grupo_divergencia_id = None \<rparr>)
      | Some n \<Rightarrow>
          (let dias = calcular_dias_postergados (grupo_data_abastecimento g) (DATA_FECHAMENTO config)
           in if dias > PERIODO_MAXIMO_DIAS config then
                \<lparr> tipo = ''DESCONSIDERADA'', grupo = g, nfe = Some n,
                  diferenca = \<bar>valor_planilha g - valor n\<bar>, dias_postergados = dias,
                  motivo = Postergada dias (PERIODO_MAXIMO_DIAS config),
                  grupo_divergencia_id = None \<rparr>
              else
                (let dif = \<bar>valor_planilha g - valor n\<bar>
                 in if dif \<le> TOLERANCIA_VALOR config then
                      \<lparr> tipo = ''IDENTICA'', grupo = g, nfe = Some n, diferenca = dif,
                        dias_postergados = dias, motivo = Match_exato,
                        grupo_divergencia_id = None \<rparr>
                    else if tipo_origem g = ''AGRUPADO'' then
                      \<lparr> tipo = ''DIVERGENTE_AGRUPADA'', grupo = g, nfe = Some n, diferenca = dif,
                        dias_postergados = dias, motivo = Divergencia_so_agrupado dif,
                        grupo_divergencia_id = None \<rparr>
                    else
                      \<lparr> tipo = ''DIVERGENTE'', grupo = g, nfe = Some n, diferenca = dif,
                        dias_postergados = dias, motivo = Divergencia dif,
                        grupo_divergencia_id = None \<rparr>)))"

section \<open>Insertion-ordered dictionaries\<close>

text \<open>
  \<open>dict_set m k v\<close> is \<open>m[k] = v\<close>: an existing key keeps its place, a new key goes to the
  end. \<open>defaultdict_touch d m k\<close> is the lookup \<open>m[k]\<close> of a \<open>defaultdict\<close> whose default
  value is \<open>d\<close>: a missing key is inserted first. \<open>dict_modify m k f\<close> changes in place
  the value stored under \<open>k\<close>.
\<close>

definition dict_modify :: "('k \<times> 'v) list \<Rightarrow> 'k \<Rightarrow> ('v \<Rightarrow> 'v) \<Rightarrow> ('k \<times> 'v) list" where
  "dict_modify m k f = map (\<lambda>(k', v). if k' = k then (k', f v) else (k', v)) m"

definition dict_set :: "('k \<times> 'v) list \<Rightarrow> 'k \<Rightarrow> 'v \<Rightarrow> ('k \<times> 'v) list" where
  "dict_set m k v =
     (case map_of m k of None \<Rightarrow> m @ [(k, v)] | Some _ \<Rightarrow> dict_modify m k (\<lambda>_. v))"

definition defaultdict_touch :: "'v \<Rightarrow> ('k \<times> 'v) list \<Rightarrow> 'k \<Rightarrow> ('k \<times> 'v) list" where
  "defaultdict_touch d m k = (case map_of m k of None \<Rightarrow> m @ [(k, d)] | Some _ \<Rightarrow> m)"

definition defaultdict_append :: "('k \<times> 'v list) list \<Rightarrow> 'k \<Rightarrow> 'v \<Rightarrow> ('k \<times> 'v list) list" where
  "defaultdict_append m k x = dict_modify (defaultdict_touch [] m k) k (\<lambda>l. l @ [x])"

section \<open>Grouping engine: criar\_grupos\_nfe\<close>

text \<open>
  The index maps an invoice number to the pair of lists \<open>(individuais, agrupadas)\<close>;
  both start empty when the number is first met.
\<close>

type_synonym dados = "TransacaoOriginal list \<times> TransacaoOriginal list"
type_synonym indice = "(string \<times> dados) list"

definition separar_numero :: "TransacaoOriginal \<Rightarrow> string \<Rightarrow> indice \<Rightarrow> indice" where
  "separar_numero transacao num idx =
     (if eh_agrupamento transacao
      then dict_modify (defaultdict_touch ([], []) idx num) num (\<lambda>(ind, agr). (ind, agr @ [transacao]))
      else dict_modify (defaultdict_touch ([], []) idx num) num (\<lambda>(ind, agr). (ind @ [transacao], agr)))"

definition separar_transacao :: "TransacaoOriginal \<Rightarrow> indice \<Rightarrow> indice" where
  "separar_transacao transacao idx =
     (if eh_cancelamento transacao \<or> eh_estorno transacao then idx
      else fold (separar_numero transacao) (remdups (numeros_nfe transacao)) idx)"

definition separar_transacoes :: "TransacaoOriginal list \<Rightarrow> indice" where
  "separar_transacoes transacoes = fold separar_transacao transacoes []"

text \<open>
  The body of the second loop for one index entry: \<open>Inr None\<close> is \<open>continue\<close>, and
  \<open>Inl IndexError\<close> is \<open>numeros_na_ordem[0]\<close> on an empty list.
\<close>

definition montar_grupo ::
  "string \<Rightarrow> TransacaoOriginal \<Rightarrow> decimal \<Rightarrow> dados \<Rightarrow> int list \<Rightarrow> GrupoNFe" where
  "montar_grupo num primeira v dados ls =
     \<lparr> numero_nfe = num,
       grupo_data_abastecimento = data_abastecimento primeira,
       grupo_cnpj_posto = cnpj_posto primeira,
       grupo_cnpj_empresa = cnpj_empresa primeira,
       valor_planilha = v,
       grupo_postergado = postergado primeira,
       transacoes_individuais = fst dados,
       transacoes_agrupadas = snd dados,
       linhas = ls \<rparr>"

definition criar_grupo :: "string \<Rightarrow> dados \<Rightarrow> py_error + GrupoNFe option" where
  "criar_grupo num dados =
     (case fst dados of
        primeira # _ \<Rightarrow>
          Inr (Some (montar_grupo num primeira (sum_list (map valor_boleto (fst dados))) dados
                       (map linha (fst dados))))
      | [] \<Rightarrow>
          (case snd dados of
             [] \<Rightarrow> Inr None
           | primeira_trans_agrupada # _ \<Rightarrow>
               (case sort (remdups (numeros_nfe primeira_trans_agrupada)) of
                  [] \<Rightarrow> Inl IndexError
                | menor # _ \<Rightarrow>
                    Inr (Some (montar_grupo num primeira_trans_agrupada
                                (if num = menor then sum_list (map valor_boleto (snd dados)) else 0)
                                dados (map linha (snd dados)))))))"

fun criar_grupos_loop ::
  "indice \<Rightarrow> (string \<times> GrupoNFe) list \<Rightarrow> py_error + (string \<times> GrupoNFe) list" where
  "criar_grupos_loop [] grupos = Inr grupos"
| "criar_grupos_loop ((num, dados) # resto) grupos =
     (case criar_grupo num dados of
        Inl e \<Rightarrow> Inl e
      | Inr None \<Rightarrow> criar_grupos_loop resto grupos
      | Inr (Some g) \<Rightarrow> criar_grupos_loop resto (dict_set grupos num g))"

definition criar_grupos_nfe :: "TransacaoOriginal list \<Rightarrow> py_error + (string \<times> GrupoNFe) list" where
  "criar_grupos_nfe transacoes = criar_grupos_loop (separar_transacoes transacoes) []"

text \<open>
  The words of the specification: a transaction contributes to an invoice number when
  it is neither a cancellation nor a reversal and references the number; the
  contribution is individual when the transaction references exactly one invoice and
  combined when it references two or more.
\<close>

definition contribui :: "string \<Rightarrow> TransacaoOriginal \<Rightarrow> bool" where
  "contribui num t = (\<not> eh_cancelamento t \<and> \<not> eh_estorno t \<and> num \<in> set (numeros_nfe t))"

definition contribuinte_individual :: "string \<Rightarrow> TransacaoOriginal \<Rightarrow> bool" where
  "contribuinte_individual num t = (contribui num t \<and> card (set (numeros_nfe t)) = 1)"

definition contribuinte_agrupado :: "string \<Rightarrow> TransacaoOriginal \<Rightarrow> bool" where
  "contribuinte_agrupado num t = (contribui num t \<and> card (set (numeros_nfe t)) \<ge> 2)"

section \<open>Reconciliation of all groups: processar\_confrontamento\<close>

text \<open>The dict comprehension \<open>{nfe.numero: nfe for nfe in nfes}\<close>: the last invoice wins.\<close>

definition criar_indice_nfes :: "NFe list \<Rightarrow> (string \<rightharpoonup> NFe)" where
  "criar_indice_nfes nfes = fold (\<lambda>n m. m(numero n \<mapsto> n)) nfes Map.empty"

definition resultados_vazios :: "(string \<times> Resultado list) list" where
  "resultados_vazios =
     [(''IDENTICA'', []), (''DIVERGENTE'', []), (''DIVERGENTE_AGRUPADA'', []),
      (''NAO_ENCONTRADA'', []), (''DESCONSIDERADA'', [])]"

text \<open>\<open>m[k].append(x)\<close> on a plain dict: a missing key raises \<open>KeyError\<close>.\<close>

definition dict_append :: "('k \<times> 'v list) list \<Rightarrow> 'k \<Rightarrow> 'v \<Rightarrow> py_error + ('k \<times> 'v list) list" where
  "dict_append m k x =
     (case map_of m k of None \<Rightarrow> Inl KeyError | Some _ \<Rightarrow> Inr (dict_modify m k (\<lambda>l. l @ [x])))"

fun processar_loop ::
  "GrupoNFe list \<Rightarrow> (string \<rightharpoonup> NFe) \<Rightarrow> Config \<Rightarrow> (string \<times> Resultado list) list
     \<Rightarrow> py_error + (string \<times> Resultado list) list" where
  "processar_loop [] nfes_index config resultados = Inr resultados"
| "processar_loop (g # gs) nfes_index config resultados =
     (let resultado = confrontar_grupo g nfes_index config
      in case dict_append resultados (tipo resultado) resultado of
           Inl e \<Rightarrow> Inl e
         | Inr resultados' \<Rightarrow> processar_loop gs nfes_index config resultados')"

definition processar_confrontamento ::
  "(string \<times> GrupoNFe) list \<Rightarrow> NFe list \<Rightarrow> Config \<Rightarrow> py_error + (string \<times> Resultado list) list" where
  "processar_confrontamento grupos nfes config =
     processar_loop (map snd grupos) (criar_indice_nfes nfes) config resultados_vazios"

section \<open>Divergence groups: detectar\_grupos\_divergentes\_agrupadas\<close>

text \<open>
  The function writes \<open>grupo_divergencia_id\<close> into the \<open>Resultado\<close> objects of its
  argument, which the returned dict shares. The model keeps the objects in a store, the
  argument list itself, addressed by position; the intermediate dict \<open>grupos\<close> holds
  positions, and the function returns the store after the writes together with the
  numbered dict, read from that store. Positions come from \<open>enumerate\<close>, so every write
  is in range.
\<close>

definition agrupar_por_linha :: "Resultado list \<Rightarrow> (int \<times> nat list) list" where
  "agrupar_por_linha divergentes_agrupadas =
     fold (\<lambda>(i, resultado) grupos.
             case transacoes_agrupadas (grupo resultado) of
               [] \<Rightarrow> grupos
             | primeira_trans # _ \<Rightarrow> defaultdict_append grupos (linha primeira_trans) i)
          (enumerate 0 divergentes_agrupadas) []"

definition marcar :: "int \<Rightarrow> nat list \<Rightarrow> Resultado list \<Rightarrow> Resultado list" where
  "marcar grupo_id posicoes store =
     fold (\<lambda>i s. s[i := (s ! i)\<lparr>grupo_divergencia_id := Some grupo_id\<rparr>]) posicoes store"

fun numerar_grupos ::
  "(int \<times> nat list) list \<Rightarrow> int \<Rightarrow> Resultado list \<Rightarrow> (int \<times> nat list) list
     \<Rightarrow> py_error + (Resultado list \<times> (int \<times> nat list) list)" where
  "numerar_grupos [] grupo_id store numerados = Inr (store, numerados)"
| "numerar_grupos ((chave, resultados_grupo) # resto) grupo_id store numerados =
     (if length resultados_grupo \<ge> 2 then
        numerar_grupos resto (grupo_id + 1) (marcar grupo_id resultados_grupo store)
          (dict_set numerados grupo_id resultados_grupo)
      else
        (case resultados_grupo of
           [] \<Rightarrow> Inl IndexError
         | i # _ \<Rightarrow>
             numerar_grupos resto (grupo_id + 1) (marcar grupo_id [i] store)
               (dict_set numerados grupo_id resultados_grupo)))"

definition detectar_grupos_divergentes_agrupadas ::
  "Resultado list \<Rightarrow> py_error + (Resultado list \<times> (int \<times> Resultado list) list)" where
  "detectar_grupos_divergentes_agrupadas divergentes_agrupadas =
     (case numerar_grupos (agrupar_por_linha divergentes_agrupadas) 1 divergentes_agrupadas [] of
        Inl e \<Rightarrow> Inl e
      | Inr (store, numerados) \<Rightarrow>
          Inr (store, map (\<lambda>(gid, posicoes). (gid, map (\<lambda>i. store ! i) posicoes)) numerados))"

text \<open>
  The words of the specification: the key of a result is the source row of its first
  combined contributor, and keys are numbered in the order in which they are first met.
\<close>

definition chave_origem :: "Resultado \<Rightarrow> int" where
  "chave_origem r = linha (hd (transacoes_agrupadas (grupo r)))"

definition ordem_primeiro_encontro :: "'a list \<Rightarrow> 'a list" where
  "ordem_primeiro_encontro xs = rev (remdups (rev xs))"

section \<open>Cancellations, reversals and the summary\<close>

definition calcular_cancelamentos_estornos :: "TransacaoOriginal list \<Rightarrow> decimal \<times> decimal" where
  "calcular_cancelamentos_estornos transacoes =
     (let cancelamento_total = sum_list (map valor_boleto (filter eh_cancelamento transacoes));
          estorno = sum_list (map valor_boleto (filter eh_estorno transacoes))
      in (cancelamento_total, if estorno > 0 then - estorno else estorno))"

definition dict_lookup :: "('k \<times> 'v) list \<Rightarrow> 'k \<Rightarrow> py_error + 'v" where
  "dict_lookup m k = (case map_of m k of None \<Rightarrow> Inl KeyError | Some v \<Rightarrow> Inr v)"

definition soma_planilha :: "Resultado list \<Rightarrow> decimal" where
  "soma_planilha rs = sum_list (map (\<lambda>r. valor_planilha (grupo r)) rs)"

text \<open>\<open>sum(r.nfe.valor for r in ... if r.nfe)\<close>: results without an invoice are skipped.\<close>

definition soma_nfe :: "Resultado list \<Rightarrow> decimal" where
  "soma_nfe rs = sum_list (map (\<lambda>r. valor (the (nfe r))) (filter (\<lambda>r. nfe r \<noteq> None) rs))"

definition gerar_resumo ::
  "(string \<times> Resultado list) list \<Rightarrow> decimal \<Rightarrow> decimal \<Rightarrow> decimal \<Rightarrow> py_error + Resumo" where
  "gerar_resumo resultados valor_total_boleto cancelamento_total estorno =
     (case dict_lookup resultados ''IDENTICA'' of Inl e \<Rightarrow> Inl e | Inr rs_identica \<Rightarrow>
      case dict_lookup resultados ''DIVERGENTE_AGRUPADA'' of Inl e \<Rightarrow> Inl e | Inr rs_agrupada \<Rightarrow>
      case dict_lookup resultados ''DIVERGENTE'' of Inl e \<Rightarrow> Inl e | Inr rs_divergente \<Rightarrow>
      case dict_lookup resultados ''DESCONSIDERADA'' of Inl e \<Rightarrow> Inl e | Inr rs_desconsiderada \<Rightarrow>
      case dict_lookup resultados ''NAO_ENCONTRADA'' of Inl e \<Rightarrow> Inl e | Inr rs_nao_encontrada \<Rightarrow>
        (let v_identicas = soma_planilha rs_identica;
             v_agrupadas = soma_planilha rs_agrupada;
             v_divergentes = soma_planilha rs_divergente;
             v_desconsideradas = soma_nfe rs_desconsiderada;
             v_nao_encontradas = soma_planilha rs_nao_encontrada;
             v_total = v_identicas + v_agrupadas + v_divergentes + v_desconsideradas
                         - v_nao_encontradas;
             v_a_pagar = v_total - v_desconsideradas;
             v_diferenca = \<bar>v_a_pagar - valor_total_boleto\<bar>
         in Inr \<lparr> valor_do_boleto = valor_total_boleto,
                  identicas = v_identicas,
                  agrupadas = v_agrupadas,
                  divergentes = v_divergentes,
                  desconsideradas = v_desconsideradas,
                  nao_encontradas = v_nao_encontradas,
                  cancelamento = cancelamento_total,
                  estornos = estorno,
                  total_resumo = v_total,
                  valor_a_pagar = v_a_pagar,
                  diferenca_validacao = v_diferenca \<rparr>))"

text \<open>The five keys of the dict that \<open>processar_confrontamento\<close> returns.\<close>

definition tipos_resultado :: "string list" where
  "tipos_resultado =
     [''IDENTICA'', ''DIVERGENTE'', ''DIVERGENTE_AGRUPADA'', ''NAO_ENCONTRADA'', ''DESCONSIDERADA'']"

section \<open>Auxiliary notions for the proofs about grouping\<close>

text \<open>
  The pair of lists that the index holds for an invoice number once every transaction
  has been read, and the effect of one more contribution on such a pair.
\<close>

definition dados_de :: "TransacaoOriginal list \<Rightarrow> string \<Rightarrow> dados" where
  "dados_de ts num = (filter (contribuinte_individual num) ts, filter (contribuinte_agrupado num) ts)"

definition anexar :: "TransacaoOriginal \<Rightarrow> dados \<Rightarrow> dados" where
  "anexar t d = (if eh_agrupamento t then (fst d, snd d @ [t]) else (fst d @ [t], snd d))"

definition indice_ok :: "indice \<Rightarrow> (string \<Rightarrow> dados) \<Rightarrow> bool" where
  "indice_ok idx f =
     (distinct (map fst idx) \<and> (\<forall>(k, d) \<in> set idx. d = f k)
      \<and> (\<forall>k. k \<notin> fst ` set idx \<longrightarrow> f k = ([], [])))"

section \<open>Auxiliary notions for the proofs about divergence groups\<close>

text \<open>
  The positions of a key in a list of keys, the position of an element in a list, and
  the identifier that the numbering loop leaves at a position of the store (a later
  group overwrites an earlier one).
\<close>

definition posicoes_da_chave :: "'a list \<Rightarrow> 'a \<Rightarrow> nat list" where
  "posicoes_da_chave ks k = filter (\<lambda>i. ks ! i = k) [0..<length ks]"

fun indice_de :: "'a \<Rightarrow> 'a list \<Rightarrow> nat" where
  "indice_de k [] = 0"
| "indice_de k (x # xs) = (if x = k then 0 else Suc (indice_de k xs))"

fun atribuido :: "(int \<times> nat list) list \<Rightarrow> int \<Rightarrow> nat \<Rightarrow> int option" where
  "atribuido [] gid j = None"
| "atribuido ((k, ps) # resto) gid j =
     (case atribuido resto (gid + 1) j of
        Some x \<Rightarrow> Some x
      | None \<Rightarrow> if j \<in> set ps then Some gid else None)"

section \<open>Cell values and the standard library\<close>

text \<open>
  A \<open>Decimal\<close> as the currency parser meets it: a finite value (the rational number it
  denotes; its exponent and the sign of a zero are not kept), an infinity (\<open>True\<close> for
  the negative one), a quiet NaN or a signalling NaN (sign and payload are not kept). A
  \<open>float\<close> is a finite value, given by the number that its \<open>str()\<close> text denotes, an
  infinity or a NaN, and \<open>Decimal_float\<close> is \<open>Decimal(str(valor))\<close> for a \<open>float\<close>, whose
  texts are numerals, \<open>inf\<close>, \<open>-inf\<close> and \<open>nan\<close>.
\<close>

datatype pydecimal = Finito rat | Infinito bool | QNaN | SNaN

datatype pyfloat = Float_finito rat | Float_inf bool | Float_nan

definition Decimal_float :: "pyfloat \<Rightarrow> pydecimal" where
  "Decimal_float f =
     (case f of
        Float_finito x \<Rightarrow> Finito x
      | Float_inf negativo \<Rightarrow> Infinito negativo
      | Float_nan \<Rightarrow> QNaN)"

text \<open>
  The value of a spreadsheet cell; \<open>PyDateTime d\<close> is a \<open>datetime\<close> whose date is \<open>d\<close>,
  and \<open>PyOther\<close> is any other object.

  Three library functions are parameters of the model: \<open>Decimal_text s\<close> is
  \<open>Decimal(s)\<close> for a text \<open>s\<close>, \<open>None\<close> when the constructor raises;
  \<open>strptime_date s f\<close> is \<open>datetime.strptime(s, f).date()\<close>, \<open>None\<close> when it raises;
  \<open>str_other v\<close> is \<open>str(v)\<close> for a value that is not \<open>None\<close>, a \<open>bool\<close>, an \<open>int\<close> or a
  \<open>str\<close>. Characters are bytes: the string functions below are those of Python on
  ASCII text.
\<close>

datatype pyvalue =
    PyNone
  | PyBool bool
  | PyInt int
  | PyFloat pyfloat
  | PyDecimal pydecimal
  | PyStr string
  | PyDate date
  | PyDateTime date
  | PyOther nat

record pylib =
  Decimal_text :: "string \<Rightarrow> pydecimal option"
  strptime_date :: "string \<Rightarrow> string \<Rightarrow> date option"
  str_other :: "pyvalue \<Rightarrow> string"

fun truthy :: "pyvalue \<Rightarrow> bool" where
  "truthy PyNone = False"
| "truthy (PyBool b) = b"
| "truthy (PyInt n) = (n \<noteq> 0)"
| "truthy (PyFloat f) = (f \<noteq> Float_finito 0)"
| "truthy (PyDecimal d) = (d \<noteq> Finito 0)"
| "truthy (PyStr s) = (s \<noteq> [])"
| "truthy (PyDate d) = True"
| "truthy (PyDateTime d) = True"
| "truthy (PyOther n) = True"

definition digito :: "nat \<Rightarrow> char" where
  "digito d = ''0123456789'' ! d"

fun str_nat :: "nat \<Rightarrow> string" where
  "str_nat n = (if n < 10 then [digito n] else str_nat (n div 10) @ [digito (n mod 10)])"

declare str_nat.simps [simp del]

definition str_int :: "int \<Rightarrow> string" where
  "str_int n = (if n < 0 then CHR ''-'' # str_nat (nat (- n)) else str_nat (nat n))"

definition py_str :: "pylib \<Rightarrow> pyvalue \<Rightarrow> string" where
  "py_str lib v =
     (case v of
        PyStr s \<Rightarrow> s
      | PyNone \<Rightarrow> ''None''
      | PyBool b \<Rightarrow> (if b then ''True'' else ''False'')
      | PyInt n \<Rightarrow> str_int n
      | _ \<Rightarrow> str_other lib v)"

definition py_isspace :: "char \<Rightarrow> bool" where
  "py_isspace c =
     (c \<in> set [CHR 0x09, CHR 0x0A, CHR 0x0B, CHR 0x0C, CHR 0x0D,
                CHR 0x1C, CHR 0x1D, CHR 0x1E, CHR 0x1F, CHR 0x20])"

definition strip :: "string \<Rightarrow> string" where
  "strip s = rev (dropWhile py_isspace (rev (dropWhile py_isspace s)))"

text \<open>\<open>s.replace(old, new)\<close> for a nonempty \<open>old\<close>: leftmost occurrences, not overlapping.\<close>

function replace :: "string \<Rightarrow> string \<Rightarrow> string \<Rightarrow> string" where
  "replace old new s =
     (if s = [] then []
      else if old \<noteq> [] \<and> take (length old) s = old
           then new @ replace old new (drop (length old) s)
           else hd s # replace old new (tl s))"
  by pat_completeness auto
termination
  by (relation "measure (\<lambda>(old, new, s). length s)") (auto simp: neq_Nil_conv)

declare replace.simps [simp del]

text \<open>\<open>s.rfind(c)\<close> for a single character: the highest index, or \<open>-1\<close>.\<close>

fun rfind :: "string \<Rightarrow> char \<Rightarrow> int" where
  "rfind [] c = - 1"
| "rfind (x # xs) c =
     (let r = rfind xs c in if r \<ge> 0 then r + 1 else if x = c then 0 else - 1)"

text \<open>\<open>sub in s\<close>.\<close>

fun substr_in :: "string \<Rightarrow> string \<Rightarrow> bool" where
  "substr_in sub [] = (sub = [])"
| "substr_in sub (c # cs) = (take (length sub) (c # cs) = sub \<or> substr_in sub cs)"

definition lower_char :: "char \<Rightarrow> char" where
  "lower_char c =
     (case map_of (zip ''ABCDEFGHIJKLMNOPQRSTUVWXYZ'' ''abcdefghijklmnopqrstuvwxyz'') c of
        Some l \<Rightarrow> l
      | None \<Rightarrow> c)"

definition lower :: "string \<Rightarrow> string" where
  "lower s = map lower_char s"

definition is_digit :: "char \<Rightarrow> bool" where
  "is_digit c = (c \<in> set ''0123456789'')"

text \<open>\<open>s.split(sep)\<close> for a single character.\<close>

fun split_char :: "char \<Rightarrow> string \<Rightarrow> string list" where
  "split_char sep [] = [[]]"
| "split_char sep (c # cs) =
     (if c = sep then [] # split_char sep cs
      else (case split_char sep cs of
              w # ws \<Rightarrow> (c # w) # ws
            | [] \<Rightarrow> [[c]]))"

section \<open>Currency parser: converter\_valor and ValorMonetario\<close>

text \<open>
  \<open>Decimal.quantize(Decimal('0.01'), rounding=ROUND_HALF_UP)\<close>: the nearest multiple of
  one cent, a tie going away from zero.
\<close>

definition quantize_2 :: "decimal \<Rightarrow> decimal" where
  "quantize_2 x =
     (if x \<ge> 0 then of_int \<lfloor>x * 100 + 1 / 2\<rfloor> / 100
      else - (of_int \<lfloor>- x * 100 + 1 / 2\<rfloor> / 100))"

text \<open>
  \<open>quantize\<close> as the two functions call it, in the default context (28 significant
  digits, \<open>InvalidOperation\<close> trapped): it raises \<open>InvalidOperation\<close> when the rounded
  value, counted in cents, has more than 28 digits, on an infinity and on a signalling
  NaN, and it returns a quiet NaN.
\<close>

definition cabe_na_precisao :: "decimal \<Rightarrow> bool" where
  "cabe_na_precisao x = (\<lfloor>\<bar>x\<bar> * 100 + 1 / 2\<rfloor> < 10 ^ 28)"

definition quantize :: "pydecimal \<Rightarrow> py_error + pydecimal" where
  "quantize d =
     (case d of
        Finito x \<Rightarrow>
          if cabe_na_precisao x then Inr (Finito (quantize_2 x)) else Inl InvalidOperation
      | Infinito negativo \<Rightarrow> Inl InvalidOperation
      | QNaN \<Rightarrow> Inr QNaN
      | SNaN \<Rightarrow> Inl InvalidOperation)"

text \<open>
  The two functions share, word for word, the removal of the currency prefix and the
  choice between the Brazilian and the international convention.
\<close>

definition limpar_prefixo :: "string \<Rightarrow> string" where
  "limpar_prefixo s = strip (replace ''$'' '''' (replace ''R$'' '''' (strip s)))"

definition normalizar_separadores :: "string \<Rightarrow> string" where
  "normalizar_separadores valor_str =
     (if CHR '','' \<in> set valor_str \<and> CHR ''.'' \<in> set valor_str then
        (let ultima_virgula = rfind valor_str CHR '','';
             ultimo_ponto = rfind valor_str CHR ''.''
         in if ultima_virgula > ultimo_ponto
            then replace '','' ''.'' (replace ''.'' '''' valor_str)
            else replace '','' '''' valor_str)
      else if CHR '','' \<in> set valor_str then replace '','' ''.'' valor_str
      else valor_str)"

text \<open>
  \<open>converter_valor\<close>: \<open>None\<close> gives zero, a \<open>Decimal\<close> is returned as it is, an \<open>int\<close> or a
  \<open>float\<close> goes through \<open>Decimal(str(valor)).quantize(...)\<close> outside any \<open>try\<close>, so that a
  failure of \<open>quantize\<close> reaches the caller (a \<open>bool\<close> is an \<open>int\<close>, and \<open>Decimal('True')\<close>
  raises). Every other value is parsed from its text and rounded inside a \<open>try\<close> whose
  handler returns zero, whether the constructor or \<open>quantize\<close> has raised.
\<close>

definition converter_valor :: "pylib \<Rightarrow> pyvalue \<Rightarrow> py_error + pydecimal" where
  "converter_valor lib v =
     (case v of
        PyNone \<Rightarrow> Inr (Finito 0)
      | PyDecimal d \<Rightarrow> Inr d
      | PyBool b \<Rightarrow> Inl InvalidOperation
      | PyInt n \<Rightarrow> quantize (Finito (of_int n))
      | PyFloat f \<Rightarrow> quantize (Decimal_float f)
      | _ \<Rightarrow>
          (case Decimal_text lib (normalizar_separadores (limpar_prefixo (py_str lib v))) of
             None \<Rightarrow> Inr (Finito 0)
           | Some d \<Rightarrow>
               (case quantize d of
                  Inl e \<Rightarrow> Inr (Finito 0)
                | Inr q \<Rightarrow> Inr q)))"

text \<open>
  \<open>ValorMonetario.__init__\<close>, returning the stored \<open>_valor\<close>: only a \<open>str\<close> is normalised,
  every value goes through \<open>Decimal(str(valor))\<close> and \<open>quantize\<close>, both inside the \<open>try\<close>,
  and a failure of either is raised again as \<open>ValueError\<close>.
\<close>

definition como_ValueError :: "py_error + pydecimal \<Rightarrow> py_error + pydecimal" where
  "como_ValueError r = (case r of Inl e \<Rightarrow> Inl ValueError | Inr q \<Rightarrow> Inr q)"

definition ValorMonetario_init :: "pylib \<Rightarrow> pyvalue \<Rightarrow> py_error + pydecimal" where
  "ValorMonetario_init lib v =
     (case v of
        PyStr s \<Rightarrow>
          (case Decimal_text lib (normalizar_separadores (limpar_prefixo s)) of
             None \<Rightarrow> Inl ValueError
           | Some d \<Rightarrow> como_ValueError (quantize d))
      | PyInt n \<Rightarrow> como_ValueError (quantize (Finito (of_int n)))
      | PyFloat f \<Rightarrow> como_ValueError (quantize (Decimal_float f))
      | PyDecimal d \<Rightarrow> como_ValueError (quantize d)
      | _ \<Rightarrow>
          (case Decimal_text lib (py_str lib v) of
             None \<Rightarrow> Inl ValueError
           | Some d \<Rightarrow> como_ValueError (quantize d)))"

text \<open>
  The words of the specification: the position of the last occurrence of a character,
  and the two normalisations.
\<close>

definition ultima_posicao :: "string \<Rightarrow> char \<Rightarrow> nat" where
  "ultima_posicao s c = Max {i. i < length s \<and> s ! i = c}"

definition formato_brasileiro :: "string \<Rightarrow> string" where
  "formato_brasileiro s =
     map (\<lambda>c. if c = CHR '','' then CHR ''.'' else c) (filter (\<lambda>c. c \<noteq> CHR ''.'') s)"

definition formato_internacional :: "string \<Rightarrow> string" where
  "formato_internacional s = filter (\<lambda>c. c \<noteq> CHR '','') s"

section \<open>Ingestion: carregar\_transacoes\_da\_planilha\<close>

fun tentar_formatos :: "pylib \<Rightarrow> string \<Rightarrow> string list \<Rightarrow> date option" where
  "tentar_formatos lib valor_str [] = None"
| "tentar_formatos lib valor_str (formato # formatos) =
     (case strptime_date lib valor_str formato of
        Some d \<Rightarrow> Some d
      | None \<Rightarrow> tentar_formatos lib valor_str formatos)"

definition converter_data :: "pylib \<Rightarrow> pyvalue \<Rightarrow> date option" where
  "converter_data lib v =
     (case v of
        PyNone \<Rightarrow> None
      | PyDate d \<Rightarrow> Some d
      | PyDateTime d \<Rightarrow> Some d
      | _ \<Rightarrow> tentar_formatos lib (strip (py_str lib v))
               [''%Y-%m-%d'', ''%d/%m/%Y'', ''%Y-%m-%d %H:%M:%S''])"

text \<open>
  \<open>extrair_numeros_nfe\<close>; the returned set is the list of its elements without
  repetition.
\<close>

definition extrair_numeros_nfe :: "pylib \<Rightarrow> pyvalue \<Rightarrow> string list \<times> bool \<times> bool" where
  "extrair_numeros_nfe lib texto =
     (if truthy texto then
        (let texto_str = strip (py_str lib texto);
             texto_lower = lower texto_str;
             cancelado = (substr_in ''cancelado'' texto_lower \<or> substr_in ''cancelamento'' texto_lower);
             estornado = substr_in ''estorno'' texto_lower
         in if cancelado \<or> estornado then ([], cancelado, estornado)
            else
              (let texto_limpo = filter (\<lambda>c. is_digit c \<or> c = CHR '','') texto_str;
                   numeros = split_char CHR '','' texto_limpo
               in (remdups (filter (\<lambda>n. n \<noteq> []) (map strip numeros)), False, False)))
      else ([], False, False))"

text \<open>
  One data row of the sheet: the values of the six configured columns. The body of the
  loop for the row \<open>linha\<close>: it runs inside a \<open>try\<close> whose handler counts an error and
  goes on; \<open>converter_valor\<close> can raise, and so can the addition of a signalling NaN to
  the total. The result \<open>None\<close> of the model is not an exception: it says that the
  converted value is a quiet NaN or an infinity, which the code adds to the total and
  stores in the transaction, leaving the finite values on which the grouping, the
  reconciliation and the summary are modelled.
\<close>

record linha_planilha =
  cel_numero_nfe :: pyvalue
  cel_data_abastecimento :: pyvalue
  cel_cnpj_posto :: pyvalue
  cel_cnpj_empresa :: pyvalue
  cel_valor_boleto :: pyvalue
  cel_postergado :: pyvalue

record estado_carga =
  transacoes :: "TransacaoOriginal list"
  erros :: nat
  valor_total_boleto :: decimal

definition nova_transacao ::
  "pylib \<Rightarrow> Config \<Rightarrow> int \<Rightarrow> linha_planilha \<Rightarrow> date \<Rightarrow> decimal \<Rightarrow> TransacaoOriginal" where
  "nova_transacao lib config l cels data_convertida valor_convertido =
     (case extrair_numeros_nfe lib (cel_numero_nfe cels) of
        (numeros, cancelado, estornado) \<Rightarrow>
          \<lparr> numeros_nfe = numeros,
            data_abastecimento = data_convertida,
            cnpj_posto = filter is_digit
              (if truthy (cel_cnpj_posto cels) then py_str lib (cel_cnpj_posto cels) else ''''),
            cnpj_empresa = filter is_digit
              (if truthy (cel_cnpj_empresa cels) then py_str lib (cel_cnpj_empresa cels)
               else CNPJ_EMPRESA config),
            valor_boleto = valor_convertido,
            postergado =
              (if truthy (cel_postergado cels) then py_str lib (cel_postergado cels)
               else [CHR ''N'', CHR 0xC3, CHR 0xA3, CHR ''o'']),
            linha = l,
            texto_original = py_str lib (cel_numero_nfe cels),
            eh_cancelamento = cancelado,
            eh_estorno = estornado \<rparr>)"

definition carregar_linha ::
  "pylib \<Rightarrow> Config \<Rightarrow> int \<times> linha_planilha \<Rightarrow> estado_carga \<Rightarrow> estado_carga option" where
  "carregar_linha lib config lc st =
     (case lc of (l, cels) \<Rightarrow>
        if truthy (cel_numero_nfe cels) \<and> truthy (cel_data_abastecimento cels) then
          (case converter_data lib (cel_data_abastecimento cels) of
             None \<Rightarrow> Some (st\<lparr>erros := erros st + 1\<rparr>)
           | Some data_convertida \<Rightarrow>
               (case converter_valor lib (cel_valor_boleto cels) of
                  Inl e \<Rightarrow> Some (st\<lparr>erros := erros st + 1\<rparr>)
                | Inr (Finito valor_convertido) \<Rightarrow>
                    Some (st\<lparr>valor_total_boleto := valor_total_boleto st + valor_convertido,
                            transacoes := transacoes st @
                              [nova_transacao lib config l cels data_convertida
                                 valor_convertido]\<rparr>)
                | Inr SNaN \<Rightarrow> Some (st\<lparr>erros := erros st + 1\<rparr>)
                | Inr QNaN \<Rightarrow> None
                | Inr (Infinito negativo) \<Rightarrow> None))
        else Some st)"

fun carregar_linhas ::
  "pylib \<Rightarrow> Config \<Rightarrow> (int \<times> linha_planilha) list \<Rightarrow> estado_carga \<Rightarrow> estado_carga option" where
  "carregar_linhas lib config [] st = Some st"
| "carregar_linhas lib config (lc # lcs) st =
     (case carregar_linha lib config lc st of
        None \<Rightarrow> None
      | Some st' \<Rightarrow> carregar_linhas lib config lcs st')"

text \<open>The rows are those from row 2 to \<open>ws.max_row\<close>.\<close>

definition carregar_transacoes_da_planilha ::
  "pylib \<Rightarrow> linha_planilha list \<Rightarrow> Config \<Rightarrow> (TransacaoOriginal list \<times> decimal) option" where
  "carregar_transacoes_da_planilha lib planilha config =
     (case carregar_linhas lib config
             (zip (map int [2..<2 + length planilha]) planilha)
             \<lparr> transacoes = [], erros = 0, valor_total_boleto = 0 \<rparr> of
        None \<Rightarrow> None
      | Some st \<Rightarrow> Some (transacoes st, valor_total_boleto st))"

text \<open>
  The value cell of a row keeps the ingestion within the finite values when it does not
  convert to a quiet NaN or to an infinity.
\<close>

definition valor_finito :: "pylib \<Rightarrow> linha_planilha \<Rightarrow> bool" where
  "valor_finito lib cels =
     (case converter_valor lib (cel_valor_boleto cels) of
        Inr QNaN \<Rightarrow> False
      | Inr (Infinito negativo) \<Rightarrow> False
      | _ \<Rightarrow> True)"

text \<open>
  The words of the specification for the declared total: a transaction is excluded when
  it is a cancellation or a reversal, and the total is summed over the billed values of
  the transactions that are not excluded.
\<close>

definition nao_excluida :: "TransacaoOriginal \<Rightarrow> bool" where
  "nao_excluida t = (\<not> eh_cancelamento t \<and> \<not> eh_estorno t)"

definition soma_nao_excluidas :: "TransacaoOriginal list \<Rightarrow> decimal" where
  "soma_nao_excluidas ts = sum_list (map valor_boleto (filter nao_excluida ts))"

section \<open>Example inputs\<close>


definition grupo_exemplo :: "date \<Rightarrow> decimal \<Rightarrow> GrupoNFe" where
  "grupo_exemplo d v =
     \<lparr> numero_nfe = ''1001'', grupo_data_abastecimento = d, grupo_cnpj_posto = ''11111111000111'',
       grupo_cnpj_empresa = ''17122471000175'', valor_planilha = v, grupo_postergado = ''Nao'',
       transacoes_individuais = [], transacoes_agrupadas = [], linhas = [] \<rparr>"

definition nfe_exemplo :: "string \<Rightarrow> decimal \<Rightarrow> NFe" where
  "nfe_exemplo num v =
     \<lparr> numero = num, data_emissao = 0, cnpj_emitente = ''11111111000111'',
       cnpj_destinatario = ''17122471000175'', valor = v, xml_path = ''a.xml'' \<rparr>"

text \<open>
  Three spreadsheet rows: an individual row for invoice 1001, a combined row naming 1001
  and 1002, and the combined row of the specification's second example.
\<close>

definition transacao_exemplo :: "string list \<Rightarrow> decimal \<Rightarrow> int \<Rightarrow> TransacaoOriginal" where
  "transacao_exemplo nums v l =
     \<lparr> numeros_nfe = nums, data_abastecimento = - 30, cnpj_posto = ''11111111000111'',
       cnpj_empresa = ''17122471000175'', valor_boleto = v, postergado = ''Nao'', linha = l,
       texto_original = '''', eh_cancelamento = False, eh_estorno = False \<rparr>"

definition transacoes_exemplo :: "TransacaoOriginal list" where
  "transacoes_exemplo =
     [transacao_exemplo [''1001''] 500 2,
      transacao_exemplo [''1001'', ''1002''] 300 3,
      transacao_exemplo [''2002'', ''2001''] 300 4]"

text \<open>
  Three DIVERGENTE\_AGRUPADA results: two for the invoices of the combined row 4 and one
  for an invoice of the combined row 3.
\<close>

definition resultado_exemplo :: "string \<Rightarrow> TransacaoOriginal \<Rightarrow> Resultado" where
  "resultado_exemplo num t =
     \<lparr> tipo = ''DIVERGENTE_AGRUPADA'',
       grupo = (grupo_exemplo (- 30) 0)\<lparr>numero_nfe := num, transacoes_agrupadas := [t]\<rparr>,
       nfe = Some (nfe_exemplo num 150), diferenca = 150, dias_postergados = 30,
       motivo = Divergencia_so_agrupado 150, grupo_divergencia_id = None \<rparr>"

definition resultados_exemplo :: "Resultado list" where
  "resultados_exemplo =
     [resultado_exemplo ''2001'' (transacao_exemplo [''2002'', ''2001''] 300 4),
      resultado_exemplo ''2002'' (transacao_exemplo [''2002'', ''2001''] 300 4),
      resultado_exemplo ''1002'' (transacao_exemplo [''1001'', ''1002''] 300 3)]"

text \<open>
  An instance of the library for the examples. \<open>decimal_ascii\<close> is the \<open>Decimal\<close>
  constructor on ASCII text: surrounding blanks and underscores are dropped; then an
  optional sign is followed by digits with at most one point (at least one digit) and
  an optional exponent, or by \<open>Inf\<close>, \<open>Infinity\<close>, \<open>NaN\<close> or \<open>sNaN\<close>, the last two with
  optional digits, in any case of the letters. The constructor is exact, and raises
  when the exponent is outside the limits of the C implementation of the module on a
  64-bit platform. No text is accepted as a date, and the text of other objects is
  empty.
\<close>

definition valor_digitos :: "string \<Rightarrow> int" where
  "valor_digitos ds = foldl (\<lambda>a c. 10 * a + (of_char c - 48)) 0 ds"

definition sem_sinal :: "string \<Rightarrow> bool \<times> string" where
  "sem_sinal s =
     (if take 1 s = ''-'' then (True, drop 1 s)
      else if take 1 s = ''+'' then (False, drop 1 s)
      else (False, s))"

text \<open>The digits of a coefficient and the number of those after the point.\<close>

definition coeficiente_decimal :: "string \<Rightarrow> (string \<times> nat) option" where
  "coeficiente_decimal m =
     (let inteira = takeWhile (\<lambda>c. c \<noteq> CHR ''.'') m;
          fracao = drop 1 (dropWhile (\<lambda>c. c \<noteq> CHR ''.'') m)
      in if inteira @ fracao \<noteq> [] \<and> list_all is_digit (inteira @ fracao)
         then Some (inteira @ fracao, length fracao)
         else None)"

definition expoente_decimal :: "string \<Rightarrow> int option" where
  "expoente_decimal l =
     (if CHR ''e'' \<in> set l then
        (case sem_sinal (drop 1 (dropWhile (\<lambda>c. c \<noteq> CHR ''e'') l)) of
           (negativo, ds) \<Rightarrow>
             if ds \<noteq> [] \<and> list_all is_digit ds
             then Some (if negativo then - valor_digitos ds else valor_digitos ds)
             else None)
      else Some 0)"

definition expoente_no_limite :: "string \<Rightarrow> int \<Rightarrow> bool" where
  "expoente_no_limite ds e =
     (- 1999999999999999997 \<le> e
      \<and> e + max 1 (int (length (dropWhile (\<lambda>c. c = CHR ''0'') ds))) - 1
          \<le> 999999999999999999)"

definition potencia_de_dez :: "int \<Rightarrow> rat" where
  "potencia_de_dez e = (if e \<ge> 0 then 10 ^ nat e else 1 / 10 ^ nat (- e))"

definition decimal_ascii :: "string \<Rightarrow> pydecimal option" where
  "decimal_ascii s =
     (case sem_sinal (lower (filter (\<lambda>c. c \<noteq> CHR ''_'') (strip s))) of
        (negativo, l) \<Rightarrow>
          if l = ''inf'' \<or> l = ''infinity'' then Some (Infinito negativo)
          else if take 3 l = ''nan'' \<and> list_all is_digit (drop 3 l) then Some QNaN
          else if take 4 l = ''snan'' \<and> list_all is_digit (drop 4 l) then Some SNaN
          else
            (case coeficiente_decimal (takeWhile (\<lambda>c. c \<noteq> CHR ''e'') l) of
               None \<Rightarrow> None
             | Some (ds, casas) \<Rightarrow>
                 (case expoente_decimal l of
                    None \<Rightarrow> None
                  | Some e \<Rightarrow>
                      if expoente_no_limite ds (e - int casas)
                      then Some (Finito ((if negativo then - 1 else 1)
                                   * of_int (valor_digitos ds)
                                   * potencia_de_dez (e - int casas)))
                      else None)))"

definition lib_exemplo :: pylib where
  "lib_exemplo =
     \<lparr> Decimal_text = decimal_ascii,
       strptime_date = (\<lambda>s f. None),
       str_other = (\<lambda>v. '''') \<rparr>"

text \<open>
  A sheet with two data rows, an individual row and a cancelled row, the two
  transactions that the ingestion makes of them, and a partition with one result in
  four of the five buckets.
\<close>

definition linha_exemplo :: "string \<Rightarrow> pyvalue \<Rightarrow> linha_planilha" where
  "linha_exemplo texto v =
     \<lparr> cel_numero_nfe = PyStr texto, cel_data_abastecimento = PyDate (- 30),
       cel_cnpj_posto = PyStr ''11.111.111/0001-11'', cel_cnpj_empresa = PyNone,
       cel_valor_boleto = v, cel_postergado = PyNone \<rparr>"

definition planilha_exemplo :: "linha_planilha list" where
  "planilha_exemplo = [linha_exemplo ''NFe1001'' (PyInt 500), linha_exemplo ''Cancelado'' (PyInt 100)]"

definition carga_exemplo :: "TransacaoOriginal list" where
  "carga_exemplo =
     [\<lparr> numeros_nfe = [''1001''], data_abastecimento = - 30, cnpj_posto = ''11111111000111'',
        cnpj_empresa = ''17122471000175'', valor_boleto = 500,
        postergado = [CHR ''N'', CHR 0xC3, CHR 0xA3, CHR ''o''], linha = 2,
        texto_original = ''NFe1001'', eh_cancelamento = False, eh_estorno = False \<rparr>,
      \<lparr> numeros_nfe = [], data_abastecimento = - 30, cnpj_posto = ''11111111000111'',
        cnpj_empresa = ''17122471000175'', valor_boleto = 100,
        postergado = [CHR ''N'', CHR 0xC3, CHR 0xA3, CHR ''o''], linha = 3,
        texto_original = ''Cancelado'', eh_cancelamento = True, eh_estorno = False \<rparr>]"

definition resultado_simples :: "string \<Rightarrow> decimal \<Rightarrow> NFe option \<Rightarrow> Resultado" where
  "resultado_simples t v n =
     \<lparr> tipo = t, grupo = grupo_exemplo (- 30) v, nfe = n, diferenca = 0, dias_postergados = 30,
       motivo = Match_exato, grupo_divergencia_id = None \<rparr>"

definition particao_exemplo :: "(string \<times> Resultado list) list" where
  "particao_exemplo =
     [(''IDENTICA'', [resultado_simples ''IDENTICA'' 500 (Some (nfe_exemplo ''1001'' 500))]),
      (''DIVERGENTE'', []),
      (''DIVERGENTE_AGRUPADA'', resultados_exemplo),
      (''NAO_ENCONTRADA'', [resultado_simples ''NAO_ENCONTRADA'' 70 None]),
      (''DESCONSIDERADA'', [resultado_simples ''DESCONSIDERADA'' 200 (Some (nfe_exemplo ''1001'' 210))])]"

section \<open>Verified properties\<close>

subsection \<open>Classification of one group\<close>

text \<open>
  C4. For a group whose invoice is in the index, the grace period is compared strictly
  and the tolerance non-strictly: while the deferred days do not exceed the grace period
  (in particular when they are equal to it) the group is classified by value, and a
  difference equal to the tolerance is IDENTICA; with deferred days equal to the grace
  period plus one, or larger, the result is DESCONSIDERADA whatever the values are.
\<close>

theorem confrontar_grupo_fronteiras:
  assumes "nfes_index (numero_nfe g) = Some n"
  shows "(calcular_dias_postergados (grupo_data_abastecimento g) (DATA_FECHAMENTO config)
            \<le> PERIODO_MAXIMO_DIAS config \<longrightarrow>
          tipo (confrontar_grupo g nfes_index config) =
            (if \<bar>valor_planilha g - valor n\<bar> \<le> TOLERANCIA_VALOR config then ''IDENTICA''
             else if tipo_origem g = ''AGRUPADO'' then ''DIVERGENTE_AGRUPADA''
             else ''DIVERGENTE''))
       \<and> (calcular_dias_postergados (grupo_data_abastecimento g) (DATA_FECHAMENTO config)
            = PERIODO_MAXIMO_DIAS config \<and>
          \<bar>valor_planilha g - valor n\<bar> = TOLERANCIA_VALOR config \<longrightarrow>
          tipo (confrontar_grupo g nfes_index config) = ''IDENTICA'')
       \<and> (calcular_dias_postergados (grupo_data_abastecimento g) (DATA_FECHAMENTO config)
            \<ge> PERIODO_MAXIMO_DIAS config + 1 \<longrightarrow>
          tipo (confrontar_grupo g nfes_index config) = ''DESCONSIDERADA'')"
  using assms by (simp add: confrontar_grupo_def Let_def)

theorem confrontar_grupo_fronteiras_witness:
  "tipo (confrontar_grupo (grupo_exemplo (-60) 500) [''1001'' \<mapsto> nfe_exemplo ''1001'' (50101/100)] config_padrao) = ''IDENTICA''
   \<and> tipo (confrontar_grupo (grupo_exemplo (-61) 500) [''1001'' \<mapsto> nfe_exemplo ''1001'' 500] config_padrao) = ''DESCONSIDERADA''"
  using confrontar_grupo_fronteiras [of "[''1001'' \<mapsto> nfe_exemplo ''1001'' (50101/100)]" "grupo_exemplo (-60) 500" "nfe_exemplo ''1001'' (50101/100)" config_padrao]
    confrontar_grupo_fronteiras [of "[''1001'' \<mapsto> nfe_exemplo ''1001'' 500]" "grupo_exemplo (-61) 500" "nfe_exemplo ''1001'' 500" config_padrao]
  by (simp add: grupo_exemplo_def nfe_exemplo_def config_padrao_def calcular_dias_postergados_def)

text \<open>
  C5. For a group whose invoice number is absent from the index, the result is
  NAO\_ENCONTRADA (a value, not an error, and not DESCONSIDERADA, however many days
  have passed); its difference is the allocated value of the group and it has no
  matched invoice.
\<close>

theorem confrontar_grupo_nao_encontrada:
  assumes "nfes_index (numero_nfe g) = None"
  shows "tipo (confrontar_grupo g nfes_index config) = ''NAO_ENCONTRADA''
       \<and> tipo (confrontar_grupo g nfes_index config) \<noteq> ''DESCONSIDERADA''
       \<and> diferenca (confrontar_grupo g nfes_index config) = valor_planilha g
       \<and> nfe (confrontar_grupo g nfes_index config) = None
       \<and> grupo (confrontar_grupo g nfes_index config) = g"
  using assms by (simp add: confrontar_grupo_def Let_def)

theorem confrontar_grupo_nao_encontrada_witness:
  "PERIODO_MAXIMO_DIAS config_padrao <
     calcular_dias_postergados (grupo_data_abastecimento (grupo_exemplo (-90) 500)) (DATA_FECHAMENTO config_padrao)
   \<and> tipo (confrontar_grupo (grupo_exemplo (-90) 500) Map.empty config_padrao) = ''NAO_ENCONTRADA''
   \<and> diferenca (confrontar_grupo (grupo_exemplo (-90) 500) Map.empty config_padrao) = 500
   \<and> nfe (confrontar_grupo (grupo_exemplo (-90) 500) Map.empty config_padrao) = None"
  using confrontar_grupo_nao_encontrada [of Map.empty "grupo_exemplo (-90) 500" config_padrao]
  by (simp add: grupo_exemplo_def config_padrao_def calcular_dias_postergados_def)


subsection \<open>Partition into five buckets\<close>
lemma map_fst_resultados_vazios: "map fst resultados_vazios = tipos_resultado"
  by (simp add: resultados_vazios_def tipos_resultado_def)

lemma tipo_confrontar_grupo: "tipo (confrontar_grupo g idx cfg) \<in> set tipos_resultado"
  by (simp add: confrontar_grupo_def tipos_resultado_def Let_def split: option.split)

lemma map_fst_dict_modify: "map fst (dict_modify m k f) = map fst m"
  by (induction m) (auto simp: dict_modify_def)

lemma dict_append_present:
  "k \<in> set (map fst m) \<Longrightarrow> dict_append m k x = Inr (dict_modify m k (\<lambda>l. l @ [x]))"
  by (cases "map_of m k") (auto simp: dict_append_def map_of_eq_None_iff)

lemma processar_loop_spec:
  "map fst res = tipos_resultado \<Longrightarrow>
   processar_loop gs idx cfg res =
     Inr (map (\<lambda>(k, rs). (k, rs @ filter (\<lambda>r. tipo r = k) (map (\<lambda>g. confrontar_grupo g idx cfg) gs))) res)"
proof (induction gs arbitrary: res)
  case Nil
  then show ?case by (simp add: case_prod_unfold)
next
  case (Cons g gs)
  let ?r = "confrontar_grupo g idx cfg"
  have k: "tipo ?r \<in> set (map fst res)"
    using Cons.prems tipo_confrontar_grupo by simp
  have keys: "map fst (dict_modify res (tipo ?r) (\<lambda>l. l @ [?r])) = tipos_resultado"
    using Cons.prems by (simp add: map_fst_dict_modify)
  show ?case
    by (simp add: Let_def dict_append_present [OF k] Cons.IH [OF keys])
       (auto simp: dict_modify_def)
qed

lemma mset_particao_tipos:
  "\<forall>r \<in> set rs. tipo r \<in> set tipos_resultado \<Longrightarrow>
   mset (concat (map (\<lambda>k. filter (\<lambda>r. tipo r = k) rs) tipos_resultado)) = mset rs"
proof (induction rs)
  case Nil
  then show ?case by (simp add: tipos_resultado_def)
next
  case (Cons r rs)
  then have ih: "mset (concat (map (\<lambda>k. filter (\<lambda>r. tipo r = k) rs) tipos_resultado)) = mset rs"
    by simp
  have "tipo r \<in> set tipos_resultado" using Cons.prems by simp
  then show ?case using ih
    by (auto simp: tipos_resultado_def)
qed

text \<open>
  C7. \<open>processar_confrontamento\<close> never fails and returns a partition of the groups:
  the dict has exactly the five keys, each bucket holds, in order, the results of the
  groups whose classification is its key, and the buckets together hold the result of
  every group exactly once (as a multiset), so their sizes add up to the number of
  groups.
\<close>

theorem processar_confrontamento_particao:
  "\<exists>res. processar_confrontamento grupos nfes config = Inr res
     \<and> map fst res = tipos_resultado
     \<and> distinct (map fst res)
     \<and> map snd res =
         map (\<lambda>k. filter (\<lambda>r. tipo r = k)
                    (map (\<lambda>g. confrontar_grupo g (criar_indice_nfes nfes) config) (map snd grupos)))
             tipos_resultado
     \<and> mset (concat (map snd res)) =
         mset (map (\<lambda>g. confrontar_grupo g (criar_indice_nfes nfes) config) (map snd grupos))
     \<and> length (concat (map snd res)) = length grupos"
proof -
  let ?rs = "map (\<lambda>g. confrontar_grupo g (criar_indice_nfes nfes) config) (map snd grupos)"
  let ?res = "map (\<lambda>(k, rs). (k, rs @ filter (\<lambda>r. tipo r = k) ?rs)) resultados_vazios"
  have run: "processar_confrontamento grupos nfes config = Inr ?res"
    unfolding processar_confrontamento_def
    by (rule processar_loop_spec [OF map_fst_resultados_vazios])
  have keys: "map fst ?res = tipos_resultado"
    by (simp add: resultados_vazios_def tipos_resultado_def)
  have dist: "distinct (map fst ?res)"
    unfolding keys by (simp add: tipos_resultado_def)
  have vals: "map snd ?res = map (\<lambda>k. filter (\<lambda>r. tipo r = k) ?rs) tipos_resultado"
    by (simp add: resultados_vazios_def tipos_resultado_def)
  have all: "\<forall>r \<in> set ?rs. tipo r \<in> set tipos_resultado"
    using tipo_confrontar_grupo by auto
  have ms: "mset (concat (map snd ?res)) = mset ?rs"
    unfolding vals by (rule mset_particao_tipos [OF all])
  have len: "length (concat (map snd ?res)) = length grupos"
    using arg_cong [OF ms, of size] by simp
  show ?thesis using run keys dist vals ms len by blast
qed

subsection \<open>Cancellations and reversals\<close>

text \<open>
  C9. The reversal total is never positive: the sum of the billed values of the
  reversal-flagged transactions is negated only when it is strictly positive and is
  returned unchanged otherwise; the cancellation total is the plain sum.
\<close>

theorem calcular_cancelamentos_estornos_sinais:
  "snd (calcular_cancelamentos_estornos ts) \<le> 0
   \<and> snd (calcular_cancelamentos_estornos ts) =
       (if sum_list (map valor_boleto (filter eh_estorno ts)) > 0
        then - sum_list (map valor_boleto (filter eh_estorno ts))
        else sum_list (map valor_boleto (filter eh_estorno ts)))
   \<and> fst (calcular_cancelamentos_estornos ts) = sum_list (map valor_boleto (filter eh_cancelamento ts))"
  by (simp add: calcular_cancelamentos_estornos_def Let_def)

subsection \<open>Grouping: the index after the first loop\<close>

lemma set_dict_modify:
  "set (dict_modify m k g) = (\<lambda>(k', v). if k' = k then (k', g v) else (k', v)) ` set m"
  by (simp add: dict_modify_def)

lemma separar_numero_eq:
  "separar_numero t num idx = dict_modify (defaultdict_touch ([], []) idx num) num (anexar t)"
proof -
  have "eh_agrupamento t \<Longrightarrow> (\<lambda>(ind, agr). (ind, agr @ [t])) = anexar t"
    by (auto simp: anexar_def fun_eq_iff)
  moreover have "\<not> eh_agrupamento t \<Longrightarrow> (\<lambda>(ind, agr). (ind @ [t], agr)) = anexar t"
    by (auto simp: anexar_def fun_eq_iff)
  ultimately show ?thesis by (simp add: separar_numero_def)
qed

lemma separar_numero_ok:
  assumes "indice_ok idx f"
  shows "indice_ok (separar_numero t num idx) (f(num := anexar t (f num)))
       \<and> fst ` set (separar_numero t num idx) = insert num (fst ` set idx)"
proof (cases "map_of idx num")
  case None
  then have nk: "num \<notin> fst ` set idx" by (simp add: map_of_eq_None_iff)
  then have fnum: "f num = ([], [])" using assms by (simp add: indice_ok_def)
  have unchanged: "dict_modify idx num (anexar t) = idx"
    using nk by (induction idx) (auto simp: dict_modify_def)
  have eq: "separar_numero t num idx = idx @ [(num, anexar t (f num))]"
    using None unchanged fnum
    by (simp add: separar_numero_eq defaultdict_touch_def) (simp add: dict_modify_def)
  have "\<And>k d. (k, d) \<in> set idx \<Longrightarrow> k \<noteq> num \<and> d = f k"
    using assms nk by (force simp: indice_ok_def)
  then show ?thesis
    unfolding eq using assms nk fnum by (auto simp: indice_ok_def)
next
  case (Some d)
  then have mem: "(num, d) \<in> set idx" by (rule map_of_SomeD)
  have eq: "separar_numero t num idx = dict_modify idx num (anexar t)"
    using Some by (simp add: separar_numero_eq defaultdict_touch_def)
  have keys: "map fst (dict_modify idx num (anexar t)) = map fst idx"
    by (induction idx) (auto simp: dict_modify_def)
  have "fst ` set (dict_modify idx num (anexar t)) = fst ` set idx"
    using arg_cong [OF keys, of set] by simp
  moreover have "num \<in> fst ` set idx" using mem by force
  ultimately show ?thesis
    unfolding eq using assms keys
    by (auto simp: indice_ok_def set_dict_modify split: if_splits)
qed

lemma fold_separar_numero_ok:
  assumes "distinct ms" "indice_ok idx f"
  shows "indice_ok (fold (separar_numero t) ms idx) (\<lambda>k. if k \<in> set ms then anexar t (f k) else f k)
       \<and> fst ` set (fold (separar_numero t) ms idx) = set ms \<union> fst ` set idx"
  using assms
proof (induction ms arbitrary: idx f)
  case Nil
  then show ?case by simp
next
  case (Cons m ms)
  let ?idx1 = "separar_numero t m idx"
  let ?f1 = "f(m := anexar t (f m))"
  from separar_numero_ok [OF Cons.prems(2), of t m]
  have ok1: "indice_ok ?idx1 ?f1" and k1: "fst ` set ?idx1 = insert m (fst ` set idx)"
    by simp_all
  from Cons.prems(1) have d: "distinct ms" and nm: "m \<notin> set ms" by simp_all
  from Cons.IH [OF d ok1]
  have ih: "indice_ok (fold (separar_numero t) ms ?idx1) (\<lambda>k. if k \<in> set ms then anexar t (?f1 k) else ?f1 k)"
    and ihk: "fst ` set (fold (separar_numero t) ms ?idx1) = set ms \<union> fst ` set ?idx1"
    by simp_all
  have feq: "(\<lambda>k. if k \<in> set ms then anexar t (?f1 k) else ?f1 k)
           = (\<lambda>k. if k \<in> set (m # ms) then anexar t (f k) else f k)"
    using nm by (auto simp: fun_eq_iff)
  show ?case using ih ihk k1 unfolding feq by auto
qed

lemma card_set_remdups: "card (set xs) = length (remdups xs)"
  by (simp add: length_remdups_card_conv)

lemma dados_de_snoc:
  "dados_de (ts @ [t]) k = (if contribui k t then anexar t (dados_de ts k) else dados_de ts k)"
proof (cases "contribui k t")
  case False
  then show ?thesis
    by (simp add: dados_de_def contribuinte_individual_def contribuinte_agrupado_def)
next
  case True
  then have "k \<in> set (numeros_nfe t)" by (simp add: contribui_def)
  then have "card (set (numeros_nfe t)) \<ge> 1"
    by (metis One_nat_def Suc_leI card_gt_0_iff empty_iff finite_set)
  then show ?thesis using True
    by (auto simp: dados_de_def contribuinte_individual_def contribuinte_agrupado_def
        anexar_def eh_agrupamento_def card_set_remdups)
qed

lemma separar_transacoes_ok:
  "indice_ok (separar_transacoes ts) (dados_de ts)
   \<and> fst ` set (separar_transacoes ts) = {k. \<exists>t \<in> set ts. contribui k t}"
proof (induction ts rule: rev_induct)
  case Nil
  show ?case by (simp add: separar_transacoes_def indice_ok_def dados_de_def)
next
  case (snoc t ts)
  let ?idx = "separar_transacoes ts"
  have step: "separar_transacoes (ts @ [t]) = separar_transacao t ?idx"
    by (simp add: separar_transacoes_def)
  from snoc have ok: "indice_ok ?idx (dados_de ts)"
    and keys: "fst ` set ?idx = {k. \<exists>t \<in> set ts. contribui k t}" by simp_all
  show ?case
  proof (cases "eh_cancelamento t \<or> eh_estorno t")
    case True
    then have nc: "\<And>k. \<not> contribui k t" by (auto simp: contribui_def)
    have "dados_de (ts @ [t]) = dados_de ts"
      using nc by (simp add: fun_eq_iff dados_de_snoc)
    then show ?thesis
      using True ok keys nc by (auto simp: step separar_transacao_def)
  next
    case False
    then have c: "\<And>k. contribui k t = (k \<in> set (numeros_nfe t))" by (auto simp: contribui_def)
    from fold_separar_numero_ok [where ms = "remdups (numeros_nfe t)" and t = t, OF distinct_remdups ok]
    have a: "indice_ok (fold (separar_numero t) (remdups (numeros_nfe t)) ?idx)
               (\<lambda>k. if k \<in> set (numeros_nfe t) then anexar t (dados_de ts k) else dados_de ts k)"
      and b: "fst ` set (fold (separar_numero t) (remdups (numeros_nfe t)) ?idx)
               = set (numeros_nfe t) \<union> fst ` set ?idx" by simp_all
    have feq: "(\<lambda>k. if k \<in> set (numeros_nfe t) then anexar t (dados_de ts k) else dados_de ts k)
             = dados_de (ts @ [t])"
      by (simp add: fun_eq_iff dados_de_snoc c)
    show ?thesis
      using False a b keys c unfolding feq by (auto simp: step separar_transacao_def)
  qed
qed

subsection \<open>Grouping: the groups after the second loop\<close>

lemma dict_set_novo:
  assumes "k \<notin> fst ` set m"
  shows "dict_set m k v = m @ [(k, v)]"
proof -
  have "map_of m k = None" using assms by (simp add: map_of_eq_None_iff)
  then show ?thesis by (simp add: dict_set_def)
qed

lemma criar_grupos_loop_spec:
  assumes "distinct (map fst idx)" "fst ` set idx \<inter> fst ` set acc = {}"
    and "\<forall>(k, d) \<in> set idx. \<exists>g. criar_grupo k d = Inr (Some g)"
  shows "\<exists>gs. criar_grupos_loop idx acc = Inr (acc @ gs)
            \<and> list_all2 (\<lambda>(k, d) (k', g). k' = k \<and> criar_grupo k d = Inr (Some g)) idx gs"
  using assms
proof (induction idx arbitrary: acc)
  case Nil
  then show ?case by simp
next
  case (Cons e idx)
  obtain k d where e: "e = (k, d)" by (cases e)
  from Cons.prems(3) e obtain g where g: "criar_grupo k d = Inr (Some g)" by auto
  have nk: "k \<notin> fst ` set acc" using Cons.prems(2) e by auto
  have d1: "distinct (map fst idx)" using Cons.prems(1) by simp
  have d2: "fst ` set idx \<inter> fst ` set (acc @ [(k, g)]) = {}"
    using Cons.prems(1,2) e by auto
  have d3: "\<forall>(k, d) \<in> set idx. \<exists>g. criar_grupo k d = Inr (Some g)"
    using Cons.prems(3) by simp
  from Cons.IH [OF d1 d2 d3] obtain gs where
    gs: "criar_grupos_loop idx (acc @ [(k, g)]) = Inr ((acc @ [(k, g)]) @ gs)"
    and l2: "list_all2 (\<lambda>(k, d) (k', g). k' = k \<and> criar_grupo k d = Inr (Some g)) idx gs"
    by blast
  have "criar_grupos_loop (e # idx) acc = Inr (acc @ ((k, g) # gs))"
    using gs by (simp add: e g dict_set_novo [OF nk])
  moreover have "list_all2 (\<lambda>(k, d) (k', g). k' = k \<and> criar_grupo k d = Inr (Some g)) (e # idx) ((k, g) # gs)"
    using l2 by (simp add: e g)
  ultimately show ?case by blast
qed

lemma sort_remdups_Cons_Min:
  assumes "sort (remdups ns) = m # rest"
  shows "m = Min (set ns)"
proof -
  have s: "sorted (m # rest)" using assms by (metis sorted_sort)
  have st: "set (m # rest) = set ns" using assms by (metis set_remdups set_sort)
  have "m \<in> set ns" using st by auto
  moreover have "\<forall>x \<in> set ns. m \<le> x" using s st by auto
  ultimately show ?thesis by (simp add: Min_eqI [symmetric])
qed

lemma criar_grupo_dados_de:
  assumes "t \<in> set ts" "contribui num t"
  shows "\<exists>g. criar_grupo num (dados_de ts num) = Inr (Some g)
           \<and> numero_nfe g = num
           \<and> transacoes_individuais g = filter (contribuinte_individual num) ts
           \<and> transacoes_agrupadas g = filter (contribuinte_agrupado num) ts
           \<and> (filter (contribuinte_individual num) ts \<noteq> [] \<longrightarrow>
                valor_planilha g = sum_list (map valor_boleto (filter (contribuinte_individual num) ts))
                \<and> linhas g = map linha (filter (contribuinte_individual num) ts))
           \<and> (filter (contribuinte_individual num) ts = [] \<longrightarrow>
                filter (contribuinte_agrupado num) ts \<noteq> []
                \<and> valor_planilha g =
                    (if num = Min (set (numeros_nfe (hd (filter (contribuinte_agrupado num) ts))))
                     then sum_list (map valor_boleto (filter (contribuinte_agrupado num) ts)) else 0)
                \<and> linhas g = map linha (filter (contribuinte_agrupado num) ts))"
proof (cases "filter (contribuinte_individual num) ts")
  case (Cons p ps)
  then show ?thesis
    by (simp add: criar_grupo_def dados_de_def montar_grupo_def)
next
  case Nil
  have "num \<in> set (numeros_nfe t)" using assms(2) by (simp add: contribui_def)
  then have "card (set (numeros_nfe t)) \<ge> 1"
    by (metis One_nat_def Suc_leI card_gt_0_iff empty_iff finite_set)
  moreover have "\<not> contribuinte_individual num t"
    using Nil assms(1) by (auto simp: filter_empty_conv)
  ultimately have "contribuinte_agrupado num t"
    using assms(2) by (auto simp: contribuinte_individual_def contribuinte_agrupado_def)
  then have "filter (contribuinte_agrupado num) ts \<noteq> []"
    using assms(1) by (auto simp: filter_empty_conv)
  then obtain q qs where q: "filter (contribuinte_agrupado num) ts = q # qs"
    by (cases "filter (contribuinte_agrupado num) ts") auto
  then have "q \<in> set (filter (contribuinte_agrupado num) ts)" by simp
  then have "num \<in> set (numeros_nfe q)"
    by (simp add: contribuinte_agrupado_def contribui_def)
  then have "sort (remdups (numeros_nfe q)) \<noteq> []"
    by (metis empty_iff empty_set set_remdups set_sort)
  then obtain m rest where m: "sort (remdups (numeros_nfe q)) = m # rest"
    by (cases "sort (remdups (numeros_nfe q))") auto
  have mm: "m = Min (set (numeros_nfe q))" by (rule sort_remdups_Cons_Min [OF m])
  define g where "g = montar_grupo num q
      (if num = m then sum_list (map valor_boleto (q # qs)) else 0) ([], q # qs)
      (map linha (q # qs))"
  have cg: "criar_grupo num (dados_de ts num) = Inr (Some g)"
    using Nil q m by (simp add: criar_grupo_def dados_de_def g_def)
  have props: "numero_nfe g = num" "transacoes_individuais g = []"
    "transacoes_agrupadas g = q # qs"
    "valor_planilha g = (if num = m then sum_list (map valor_boleto (q # qs)) else 0)"
    "linhas g = map linha (q # qs)"
    by (simp_all add: g_def montar_grupo_def)
  show ?thesis
    unfolding Nil q using cg props mm by (intro exI [of _ g]) simp
qed

lemma criar_grupos_nfe_spec:
  "\<exists>grupos. criar_grupos_nfe ts = Inr grupos
     \<and> distinct (map fst grupos)
     \<and> fst ` set grupos = {k. \<exists>t \<in> set ts. contribui k t}
     \<and> (\<forall>(k, g) \<in> set grupos. criar_grupo k (dados_de ts k) = Inr (Some g))"
proof -
  let ?idx = "separar_transacoes ts"
  from separar_transacoes_ok [of ts]
  have ok: "indice_ok ?idx (dados_de ts)"
    and keys: "fst ` set ?idx = {k. \<exists>t \<in> set ts. contribui k t}" by simp_all
  have dist: "distinct (map fst ?idx)" using ok by (simp add: indice_ok_def)
  have dd: "\<And>k d. (k, d) \<in> set ?idx \<Longrightarrow> d = dados_de ts k"
    using ok by (auto simp: indice_ok_def)
  have all: "\<forall>(k, d) \<in> set ?idx. \<exists>g. criar_grupo k d = Inr (Some g)"
  proof clarify
    fix k a b assume m: "(k, a, b) \<in> set ?idx"
    then have "k \<in> fst ` set ?idx" by force
    then obtain t where "t \<in> set ts" "contribui k t" using keys by auto
    from criar_grupo_dados_de [OF this] dd [OF m]
    show "\<exists>g. criar_grupo k (a, b) = Inr (Some g)" by auto
  qed
  from criar_grupos_loop_spec [OF dist _ all, of "[]"]
  obtain gs where run: "criar_grupos_loop ?idx [] = Inr gs"
    and l2: "list_all2 (\<lambda>(k, d) (k', g). k' = k \<and> criar_grupo k d = Inr (Some g)) ?idx gs"
    by auto
  have len: "length gs = length ?idx" using l2 by (simp add: list_all2_lengthD)
  have nth: "\<And>i. i < length ?idx \<Longrightarrow>
      fst (gs ! i) = fst (?idx ! i) \<and> criar_grupo (fst (?idx ! i)) (snd (?idx ! i)) = Inr (Some (snd (gs ! i)))"
    using l2 by (auto simp: list_all2_conv_all_nth case_prod_unfold)
  have fsts: "map fst gs = map fst ?idx"
    using len nth by (auto intro: nth_equalityI)
  have a: "distinct (map fst gs)" using dist fsts by simp
  have b: "fst ` set gs = {k. \<exists>t \<in> set ts. contribui k t}"
    using keys arg_cong [OF fsts, of set] by simp
  have c: "\<forall>(k, g) \<in> set gs. criar_grupo k (dados_de ts k) = Inr (Some g)"
  proof clarify
    fix k g assume "(k, g) \<in> set gs"
    then obtain i where i: "i < length gs" "gs ! i = (k, g)" by (auto simp: in_set_conv_nth)
    then have i': "i < length ?idx" using len by simp
    from nth [OF i'] i have k: "fst (?idx ! i) = k"
      and cg: "criar_grupo k (snd (?idx ! i)) = Inr (Some g)" by simp_all
    have "(k, snd (?idx ! i)) \<in> set ?idx"
      using i' k by (metis nth_mem prod.collapse)
    from dd [OF this] cg show "criar_grupo k (dados_de ts k) = Inr (Some g)" by simp
  qed
  show ?thesis
    using run a b c by (auto simp: criar_grupos_nfe_def)
qed

lemma criar_grupos_nfe_grupo:
  assumes "t \<in> set ts" "contribui num t"
  shows "\<exists>grupos g. criar_grupos_nfe ts = Inr grupos \<and> map_of grupos num = Some g
           \<and> criar_grupo num (dados_de ts num) = Inr (Some g)"
proof -
  from criar_grupos_nfe_spec [of ts] obtain grupos where
    run: "criar_grupos_nfe ts = Inr grupos" and d: "distinct (map fst grupos)"
    and k: "fst ` set grupos = {k. \<exists>t \<in> set ts. contribui k t}"
    and c: "\<forall>(k, g) \<in> set grupos. criar_grupo k (dados_de ts k) = Inr (Some g)" by blast
  have "num \<in> fst ` set grupos" using k assms by auto
  then obtain g where g: "(num, g) \<in> set grupos" by force
  then have "map_of grupos num = Some g" using d by simp
  moreover have "criar_grupo num (dados_de ts num) = Inr (Some g)" using c g by auto
  ultimately show ?thesis using run by blast
qed

subsection \<open>Grouping: shared consequences and the example\<close>

lemma criar_grupos_nfe_props:
  assumes "criar_grupos_nfe ts = Inr grupos" "t \<in> set ts" "contribui num t"
  shows "\<exists>g. map_of grupos num = Some g
           \<and> numero_nfe g = num
           \<and> transacoes_individuais g = filter (contribuinte_individual num) ts
           \<and> transacoes_agrupadas g = filter (contribuinte_agrupado num) ts
           \<and> (filter (contribuinte_individual num) ts \<noteq> [] \<longrightarrow>
                valor_planilha g = sum_list (map valor_boleto (filter (contribuinte_individual num) ts))
                \<and> linhas g = map linha (filter (contribuinte_individual num) ts))
           \<and> (filter (contribuinte_individual num) ts = [] \<longrightarrow>
                filter (contribuinte_agrupado num) ts \<noteq> []
                \<and> valor_planilha g =
                    (if num = Min (set (numeros_nfe (hd (filter (contribuinte_agrupado num) ts))))
                     then sum_list (map valor_boleto (filter (contribuinte_agrupado num) ts)) else 0)
                \<and> linhas g = map linha (filter (contribuinte_agrupado num) ts))"
proof -
  from criar_grupos_nfe_grupo [OF assms(2,3)] assms(1)
  obtain g where g: "map_of grupos num = Some g"
    and cg: "criar_grupo num (dados_de ts num) = Inr (Some g)" by auto
  from criar_grupo_dados_de [OF assms(2,3)] cg g show ?thesis by auto
qed

lemma criar_grupos_nfe_total: "\<exists>grupos. criar_grupos_nfe ts = Inr grupos"
  using criar_grupos_nfe_spec [of ts] by blast

lemma sum_list_map_pos:
  fixes f :: "'a \<Rightarrow> rat"
  shows "xs \<noteq> [] \<Longrightarrow> \<forall>x \<in> set xs. 0 < f x \<Longrightarrow> 0 < sum_list (map f xs)"
proof (induction xs)
  case Nil
  then show ?case by simp
next
  case (Cons x xs)
  show ?case
  proof (cases "xs = []")
    case True
    then show ?thesis using Cons.prems by simp
  next
    case False
    then have "0 < sum_list (map f xs)" using Cons by simp
    moreover have "0 < f x" using Cons.prems by simp
    ultimately show ?thesis by simp
  qed
qed

lemma exemplo_individual_1001: "contribuinte_individual ''1001'' (transacao_exemplo [''1001''] 500 2)"
  by (simp add: contribuinte_individual_def contribui_def transacao_exemplo_def)

lemma exemplo_filtro_individual_1001: "filter (contribuinte_individual ''1001'') transacoes_exemplo = [transacao_exemplo [''1001''] 500 2]"
  by (simp add: contribuinte_individual_def contribui_def transacao_exemplo_def transacoes_exemplo_def)

lemma exemplo_filtro_agrupado_1001: "filter (contribuinte_agrupado ''1001'') transacoes_exemplo = [transacao_exemplo [''1001'', ''1002''] 300 3]"
  by (simp add: contribuinte_agrupado_def contribui_def transacao_exemplo_def transacoes_exemplo_def)

lemma exemplo_filtro_agrupado_2001: "filter (contribuinte_agrupado ''2001'') transacoes_exemplo = [transacao_exemplo [''2002'', ''2001''] 300 4]"
  by (simp add: contribuinte_agrupado_def contribui_def transacao_exemplo_def transacoes_exemplo_def)

lemma exemplo_minimo: "Min (set [''2002'', ''2001'']) = ''2001''"
  by simp

lemma exemplo_filtro_individual_2001:
  "filter (contribuinte_individual ''2001'') transacoes_exemplo = []"
  by (simp add: contribuinte_individual_def contribui_def transacao_exemplo_def transacoes_exemplo_def)

lemma exemplo_filtro_agrupado_2002:
  "filter (contribuinte_agrupado ''2002'') transacoes_exemplo = [transacao_exemplo [''2002'', ''2001''] 300 4]"
  by (simp add: contribuinte_agrupado_def contribui_def transacao_exemplo_def transacoes_exemplo_def)

lemma exemplo_filtro_individual_2002:
  "filter (contribuinte_individual ''2002'') transacoes_exemplo = []"
  by (simp add: contribuinte_individual_def contribui_def transacao_exemplo_def transacoes_exemplo_def)

lemma exemplo_valores:
  "valor_boleto (transacao_exemplo nums v l) = v" "linha (transacao_exemplo nums v l) = l"
  "numeros_nfe (transacao_exemplo nums v l) = nums"
  by (simp_all add: transacao_exemplo_def)

subsection \<open>Grouping: value allocation and rows\<close>

text \<open>
  C2. \<open>criar_grupos_nfe\<close> always returns, and for every invoice number with at least one
  individual contributor the group of that number exists, lists exactly the individual
  contributors and, separately, the combined contributors, and its allocated value is
  the sum of the billed values of the individual contributors alone.
\<close>

theorem criar_grupos_nfe_soma_individuais:
  "\<exists>grupos. criar_grupos_nfe ts = Inr grupos
     \<and> (\<forall>num. (\<exists>t \<in> set ts. contribuinte_individual num t) \<longrightarrow>
          (\<exists>g. map_of grupos num = Some g
             \<and> transacoes_individuais g = filter (contribuinte_individual num) ts
             \<and> transacoes_agrupadas g = filter (contribuinte_agrupado num) ts
             \<and> valor_planilha g =
                 sum_list (map valor_boleto (filter (contribuinte_individual num) ts))))"
proof -
  obtain grupos where run: "criar_grupos_nfe ts = Inr grupos"
    using criar_grupos_nfe_total by blast
  have "\<exists>g. map_of grupos num = Some g
             \<and> transacoes_individuais g = filter (contribuinte_individual num) ts
             \<and> transacoes_agrupadas g = filter (contribuinte_agrupado num) ts
             \<and> valor_planilha g =
                 sum_list (map valor_boleto (filter (contribuinte_individual num) ts))"
    if "\<exists>t \<in> set ts. contribuinte_individual num t" for num
  proof -
    from that obtain t where t: "t \<in> set ts" "contribuinte_individual num t" by blast
    then have c: "contribui num t" by (simp add: contribuinte_individual_def)
    have ne: "filter (contribuinte_individual num) ts \<noteq> []"
      using t by (auto simp: filter_empty_conv)
    from criar_grupos_nfe_props [OF run t(1) c] ne show ?thesis by auto
  qed
  then show ?thesis using run by blast
qed

theorem criar_grupos_nfe_soma_individuais_witness:
  "\<exists>grupos g. criar_grupos_nfe transacoes_exemplo = Inr grupos
     \<and> map_of grupos ''1001'' = Some g
     \<and> transacoes_individuais g = [transacao_exemplo [''1001''] 500 2]
     \<and> transacoes_agrupadas g = [transacao_exemplo [''1001'', ''1002''] 300 3]
     \<and> valor_planilha g = 500"
proof -
  have h: "\<exists>t \<in> set transacoes_exemplo. contribuinte_individual ''1001'' t"
    using exemplo_individual_1001 by (simp add: transacoes_exemplo_def)
  from criar_grupos_nfe_soma_individuais [of transacoes_exemplo] h
  obtain grupos g where "criar_grupos_nfe transacoes_exemplo = Inr grupos"
    "map_of grupos ''1001'' = Some g"
    "transacoes_individuais g = filter (contribuinte_individual ''1001'') transacoes_exemplo"
    "transacoes_agrupadas g = filter (contribuinte_agrupado ''1001'') transacoes_exemplo"
    "valor_planilha g =
       sum_list (map valor_boleto (filter (contribuinte_individual ''1001'') transacoes_exemplo))"
    by blast
  then show ?thesis
    by (simp add: exemplo_filtro_individual_1001 exemplo_filtro_agrupado_1001 exemplo_valores)
qed

text \<open>
  C3. For every invoice number that has combined contributors only, the group exists,
  and its allocated value is the sum of the billed values of all its combined
  contributors when the number is the least element, in lexicographic order, of the
  reference set of the first combined contributor, and zero otherwise; when the billed
  values of the combined contributors are positive, the allocated value is nonzero
  exactly for that least number.
\<close>

theorem criar_grupos_nfe_ancora_agrupada:
  "\<exists>grupos. criar_grupos_nfe ts = Inr grupos
     \<and> (\<forall>num. (\<exists>t \<in> set ts. contribuinte_agrupado num t)
              \<and> \<not> (\<exists>t \<in> set ts. contribuinte_individual num t) \<longrightarrow>
          (\<exists>g. map_of grupos num = Some g
             \<and> transacoes_individuais g = []
             \<and> transacoes_agrupadas g = filter (contribuinte_agrupado num) ts
             \<and> valor_planilha g =
                 (if num = Min (set (numeros_nfe (hd (filter (contribuinte_agrupado num) ts))))
                  then sum_list (map valor_boleto (filter (contribuinte_agrupado num) ts))
                  else 0)
             \<and> ((\<forall>t \<in> set ts. contribuinte_agrupado num t \<longrightarrow> 0 < valor_boleto t) \<longrightarrow>
                  (valor_planilha g \<noteq> 0) =
                  (num = Min (set (numeros_nfe (hd (filter (contribuinte_agrupado num) ts))))))))"
proof -
  obtain grupos where run: "criar_grupos_nfe ts = Inr grupos"
    using criar_grupos_nfe_total by blast
  have "\<exists>g. map_of grupos num = Some g
             \<and> transacoes_individuais g = []
             \<and> transacoes_agrupadas g = filter (contribuinte_agrupado num) ts
             \<and> valor_planilha g =
                 (if num = Min (set (numeros_nfe (hd (filter (contribuinte_agrupado num) ts))))
                  then sum_list (map valor_boleto (filter (contribuinte_agrupado num) ts))
                  else 0)
             \<and> ((\<forall>t \<in> set ts. contribuinte_agrupado num t \<longrightarrow> 0 < valor_boleto t) \<longrightarrow>
                  (valor_planilha g \<noteq> 0) =
                  (num = Min (set (numeros_nfe (hd (filter (contribuinte_agrupado num) ts))))))"
    if h: "(\<exists>t \<in> set ts. contribuinte_agrupado num t)
              \<and> \<not> (\<exists>t \<in> set ts. contribuinte_individual num t)" for num
  proof -
    from h obtain t where t: "t \<in> set ts" "contribuinte_agrupado num t" by blast
    then have c: "contribui num t" by (simp add: contribuinte_agrupado_def)
    have e: "filter (contribuinte_individual num) ts = []"
      using h by (auto simp: filter_empty_conv)
    from criar_grupos_nfe_props [OF run t(1) c] e
    obtain g where g: "map_of grupos num = Some g"
      and gi: "transacoes_individuais g = []"
      and ga: "transacoes_agrupadas g = filter (contribuinte_agrupado num) ts"
      and ne: "filter (contribuinte_agrupado num) ts \<noteq> []"
      and v: "valor_planilha g =
                 (if num = Min (set (numeros_nfe (hd (filter (contribuinte_agrupado num) ts))))
                  then sum_list (map valor_boleto (filter (contribuinte_agrupado num) ts))
                  else 0)"
      by auto
    have pos: "(valor_planilha g \<noteq> 0) =
                  (num = Min (set (numeros_nfe (hd (filter (contribuinte_agrupado num) ts)))))"
      if p: "\<forall>t \<in> set ts. contribuinte_agrupado num t \<longrightarrow> 0 < valor_boleto t"
    proof -
      have "\<forall>x \<in> set (filter (contribuinte_agrupado num) ts). 0 < valor_boleto x"
        using p by simp
      from sum_list_map_pos [OF ne this]
      have "0 < sum_list (map valor_boleto (filter (contribuinte_agrupado num) ts))" .
      then show ?thesis using v by auto
    qed
    show ?thesis using g gi ga v pos by blast
  qed
  then show ?thesis using run by blast
qed

theorem criar_grupos_nfe_ancora_agrupada_witness:
  "\<exists>grupos g g'. criar_grupos_nfe transacoes_exemplo = Inr grupos
     \<and> map_of grupos ''2001'' = Some g \<and> valor_planilha g = 300 \<and> valor_planilha g \<noteq> 0
     \<and> map_of grupos ''2002'' = Some g' \<and> valor_planilha g' = 0"
proof -
  have h1: "(\<exists>t \<in> set transacoes_exemplo. contribuinte_agrupado ''2001'' t)
            \<and> \<not> (\<exists>t \<in> set transacoes_exemplo. contribuinte_individual ''2001'' t)"
    using exemplo_filtro_agrupado_2001 exemplo_filtro_individual_2001
    by (metis filter_empty_conv list.distinct(1))
  have h2: "(\<exists>t \<in> set transacoes_exemplo. contribuinte_agrupado ''2002'' t)
            \<and> \<not> (\<exists>t \<in> set transacoes_exemplo. contribuinte_individual ''2002'' t)"
    using exemplo_filtro_agrupado_2002 exemplo_filtro_individual_2002
    by (metis filter_empty_conv list.distinct(1))
  have p: "\<forall>t \<in> set transacoes_exemplo. contribuinte_agrupado ''2001'' t \<longrightarrow> 0 < valor_boleto t"
    by (simp add: transacoes_exemplo_def exemplo_valores)
  from criar_grupos_nfe_ancora_agrupada [of transacoes_exemplo]
  obtain grupos where run: "criar_grupos_nfe transacoes_exemplo = Inr grupos"
    and a: "\<And>num. (\<exists>t \<in> set transacoes_exemplo. contribuinte_agrupado num t)
              \<and> \<not> (\<exists>t \<in> set transacoes_exemplo. contribuinte_individual num t) \<Longrightarrow>
          (\<exists>g. map_of grupos num = Some g
             \<and> transacoes_individuais g = []
             \<and> transacoes_agrupadas g = filter (contribuinte_agrupado num) transacoes_exemplo
             \<and> valor_planilha g =
                 (if num = Min (set (numeros_nfe (hd (filter (contribuinte_agrupado num) transacoes_exemplo))))
                  then sum_list (map valor_boleto (filter (contribuinte_agrupado num) transacoes_exemplo))
                  else 0)
             \<and> ((\<forall>t \<in> set transacoes_exemplo. contribuinte_agrupado num t \<longrightarrow> 0 < valor_boleto t) \<longrightarrow>
                  (valor_planilha g \<noteq> 0) =
                  (num = Min (set (numeros_nfe (hd (filter (contribuinte_agrupado num) transacoes_exemplo)))))))"
    by blast
  from a [OF h1] p obtain g where g: "map_of grupos ''2001'' = Some g"
    "valor_planilha g = 300" "valor_planilha g \<noteq> 0"
    by (auto simp: exemplo_filtro_agrupado_2001 exemplo_valores exemplo_minimo)
  from a [OF h2] obtain g' where g': "map_of grupos ''2002'' = Some g'" "valor_planilha g' = 0"
    by (auto simp: exemplo_filtro_agrupado_2002 exemplo_valores exemplo_minimo)
  show ?thesis using run g g' by blast
qed

text \<open>
  C10. For every invoice number with at least one individual contributor, \<open>linhas\<close>
  is the list of the rows of the individual contributors only, although the combined
  contributors are kept in \<open>transacoes_agrupadas\<close>; for a number with combined
  contributors only, \<open>linhas\<close> is the list of their rows.
\<close>

theorem criar_grupos_nfe_linhas:
  "\<exists>grupos. criar_grupos_nfe ts = Inr grupos
     \<and> (\<forall>num. (\<exists>t \<in> set ts. contribuinte_individual num t) \<longrightarrow>
          (\<exists>g. map_of grupos num = Some g
             \<and> linhas g = map linha (filter (contribuinte_individual num) ts)
             \<and> transacoes_agrupadas g = filter (contribuinte_agrupado num) ts))
     \<and> (\<forall>num. (\<exists>t \<in> set ts. contribuinte_agrupado num t)
              \<and> \<not> (\<exists>t \<in> set ts. contribuinte_individual num t) \<longrightarrow>
          (\<exists>g. map_of grupos num = Some g
             \<and> linhas g = map linha (filter (contribuinte_agrupado num) ts)))"
proof -
  obtain grupos where run: "criar_grupos_nfe ts = Inr grupos"
    using criar_grupos_nfe_total by blast
  have a: "\<exists>g. map_of grupos num = Some g
             \<and> linhas g = map linha (filter (contribuinte_individual num) ts)
             \<and> transacoes_agrupadas g = filter (contribuinte_agrupado num) ts"
    if "\<exists>t \<in> set ts. contribuinte_individual num t" for num
  proof -
    from that obtain t where t: "t \<in> set ts" "contribuinte_individual num t" by blast
    then have c: "contribui num t" by (simp add: contribuinte_individual_def)
    have ne: "filter (contribuinte_individual num) ts \<noteq> []"
      using t by (auto simp: filter_empty_conv)
    from criar_grupos_nfe_props [OF run t(1) c] ne show ?thesis by auto
  qed
  have b: "\<exists>g. map_of grupos num = Some g
             \<and> linhas g = map linha (filter (contribuinte_agrupado num) ts)"
    if h: "(\<exists>t \<in> set ts. contribuinte_agrupado num t)
              \<and> \<not> (\<exists>t \<in> set ts. contribuinte_individual num t)" for num
  proof -
    from h obtain t where t: "t \<in> set ts" "contribuinte_agrupado num t" by blast
    then have c: "contribui num t" by (simp add: contribuinte_agrupado_def)
    have e: "filter (contribuinte_individual num) ts = []"
      using h by (auto simp: filter_empty_conv)
    from criar_grupos_nfe_props [OF run t(1) c] e show ?thesis by auto
  qed
  show ?thesis using run a b by blast
qed

theorem criar_grupos_nfe_linhas_witness:
  "\<exists>grupos g g'. criar_grupos_nfe transacoes_exemplo = Inr grupos
     \<and> map_of grupos ''1001'' = Some g \<and> linhas g = [2]
     \<and> transacoes_agrupadas g = [transacao_exemplo [''1001'', ''1002''] 300 3]
     \<and> map_of grupos ''2001'' = Some g' \<and> linhas g' = [4]"
proof -
  have h1: "\<exists>t \<in> set transacoes_exemplo. contribuinte_individual ''1001'' t"
    using exemplo_individual_1001 by (simp add: transacoes_exemplo_def)
  have h2: "(\<exists>t \<in> set transacoes_exemplo. contribuinte_agrupado ''2001'' t)
            \<and> \<not> (\<exists>t \<in> set transacoes_exemplo. contribuinte_individual ''2001'' t)"
    using exemplo_filtro_agrupado_2001 exemplo_filtro_individual_2001
    by (metis filter_empty_conv list.distinct(1))
  from criar_grupos_nfe_linhas [of transacoes_exemplo]
  obtain grupos where run: "criar_grupos_nfe transacoes_exemplo = Inr grupos"
    and a: "\<And>num. \<exists>t \<in> set transacoes_exemplo. contribuinte_individual num t \<Longrightarrow>
          (\<exists>g. map_of grupos num = Some g
             \<and> linhas g = map linha (filter (contribuinte_individual num) transacoes_exemplo)
             \<and> transacoes_agrupadas g = filter (contribuinte_agrupado num) transacoes_exemplo)"
    and b: "\<And>num. (\<exists>t \<in> set transacoes_exemplo. contribuinte_agrupado num t)
              \<and> \<not> (\<exists>t \<in> set transacoes_exemplo. contribuinte_individual num t) \<Longrightarrow>
          (\<exists>g. map_of grupos num = Some g
             \<and> linhas g = map linha (filter (contribuinte_agrupado num) transacoes_exemplo))"
    by blast
  from a [OF h1] obtain g where g: "map_of grupos ''1001'' = Some g" "linhas g = [2]"
    "transacoes_agrupadas g = [transacao_exemplo [''1001'', ''1002''] 300 3]"
    by (auto simp: exemplo_filtro_individual_1001 exemplo_filtro_agrupado_1001 exemplo_valores)
  from b [OF h2] obtain g' where g': "map_of grupos ''2001'' = Some g'" "linhas g' = [4]"
    by (auto simp: exemplo_filtro_agrupado_2001 exemplo_valores)
  show ?thesis using run g g' by blast
qed

subsection \<open>Divergence groups: the two loops\<close>

lemma ordem_primeiro_encontro_snoc:
  "ordem_primeiro_encontro (ks @ [k]) =
     (if k \<in> set ks then ordem_primeiro_encontro ks else ordem_primeiro_encontro ks @ [k])"
  by (simp add: ordem_primeiro_encontro_def)

lemma set_ordem_primeiro_encontro: "set (ordem_primeiro_encontro ks) = set ks"
  by (simp add: ordem_primeiro_encontro_def)

lemma distinct_ordem_primeiro_encontro: "distinct (ordem_primeiro_encontro ks)"
  by (simp add: ordem_primeiro_encontro_def)

lemma posicoes_da_chave_snoc:
  "posicoes_da_chave (ks @ [k]) k' =
     posicoes_da_chave ks k' @ (if k = k' then [length ks] else [])"
proof -
  have "filter (\<lambda>i. (ks @ [k]) ! i = k') [0..<length ks] = filter (\<lambda>i. ks ! i = k') [0..<length ks]"
    by (rule filter_cong) (auto simp: nth_append)
  then show ?thesis by (simp add: posicoes_da_chave_def)
qed

lemma posicoes_da_chave_ausente: "k \<notin> set ks \<Longrightarrow> posicoes_da_chave ks k = []"
  by (auto simp: posicoes_da_chave_def filter_empty_conv)

lemma set_posicoes_da_chave: "set (posicoes_da_chave ks k) = {i. i < length ks \<and> ks ! i = k}"
  by (auto simp: posicoes_da_chave_def)

lemma posicoes_da_chave_presente: "k \<in> set ks \<Longrightarrow> posicoes_da_chave ks k \<noteq> []"
  by (auto simp: posicoes_da_chave_def filter_empty_conv in_set_conv_nth)

lemma defaultdict_append_grupos:
  "defaultdict_append (map (\<lambda>k'. (k', posicoes_da_chave ks k')) (ordem_primeiro_encontro ks)) k (length ks)
   = map (\<lambda>k'. (k', posicoes_da_chave (ks @ [k]) k')) (ordem_primeiro_encontro (ks @ [k]))"
proof (cases "k \<in> set ks")
  case True
  let ?G = "map (\<lambda>k'. (k', posicoes_da_chave ks k')) (ordem_primeiro_encontro ks)"
  have "k \<in> fst ` set ?G" using True by (force simp: set_ordem_primeiro_encontro)
  then obtain v where "map_of ?G k = Some v"
    by (metis map_of_eq_None_iff not_None_eq)
  then have "defaultdict_touch [] ?G k = ?G" by (simp add: defaultdict_touch_def)
  then show ?thesis using True
    by (simp add: defaultdict_append_def dict_modify_def ordem_primeiro_encontro_snoc
        posicoes_da_chave_snoc)
next
  case False
  let ?G = "map (\<lambda>k'. (k', posicoes_da_chave ks k')) (ordem_primeiro_encontro ks)"
  have "k \<notin> fst ` set ?G" using False by (force simp: set_ordem_primeiro_encontro)
  then have "map_of ?G k = None" by (simp add: map_of_eq_None_iff)
  then have t: "defaultdict_touch [] ?G k = ?G @ [(k, [])]" by (simp add: defaultdict_touch_def)
  have "\<forall>k' \<in> set (ordem_primeiro_encontro ks). k \<noteq> k'"
    using False by (auto simp: set_ordem_primeiro_encontro)
  then show ?thesis using False
    by (auto simp add: defaultdict_append_def t dict_modify_def ordem_primeiro_encontro_snoc
        posicoes_da_chave_snoc posicoes_da_chave_ausente)
qed

lemma agrupar_por_linha_spec:
  assumes "\<forall>r \<in> set rs. transacoes_agrupadas (grupo r) \<noteq> []"
  shows "agrupar_por_linha rs =
           map (\<lambda>k. (k, posicoes_da_chave (map chave_origem rs) k))
               (ordem_primeiro_encontro (map chave_origem rs))"
  using assms
proof (induction rs rule: rev_induct)
  case Nil
  show ?case by (simp add: agrupar_por_linha_def ordem_primeiro_encontro_def)
next
  case (snoc r rs)
  from snoc.prems obtain p ps where p: "transacoes_agrupadas (grupo r) = p # ps"
    by (cases "transacoes_agrupadas (grupo r)") auto
  have ih: "agrupar_por_linha rs =
           map (\<lambda>k. (k, posicoes_da_chave (map chave_origem rs) k))
               (ordem_primeiro_encontro (map chave_origem rs))"
    using snoc by simp
  have en: "enumerate 0 (rs @ [r]) = enumerate 0 rs @ [(length rs, r)]"
    by (simp add: enumerate_append_eq)
  have "agrupar_por_linha (rs @ [r]) = defaultdict_append (agrupar_por_linha rs) (linha p) (length rs)"
    by (simp add: agrupar_por_linha_def en p)
  also have "\<dots> = map (\<lambda>k. (k, posicoes_da_chave (map chave_origem rs @ [linha p]) k))
               (ordem_primeiro_encontro (map chave_origem rs @ [linha p]))"
    unfolding ih using defaultdict_append_grupos [of "map chave_origem rs" "linha p"] by simp
  finally have fin: "agrupar_por_linha (rs @ [r]) =
      map (\<lambda>k. (k, posicoes_da_chave (map chave_origem rs @ [linha p]) k))
          (ordem_primeiro_encontro (map chave_origem rs @ [linha p]))" .
  have "map chave_origem (rs @ [r]) = map chave_origem rs @ [linha p]"
    by (simp add: p chave_origem_def [of r])
  then show ?case using fin by simp
qed

lemma marcar_spec:
  "length (marcar gid ps s) = length s
   \<and> (\<forall>j < length s. marcar gid ps s ! j =
         (if j \<in> set ps then (s ! j)\<lparr>grupo_divergencia_id := Some gid\<rparr> else s ! j))"
proof (induction ps arbitrary: s)
  case Nil
  show ?case by (simp add: marcar_def)
next
  case (Cons p ps)
  let ?s1 = "s[p := (s ! p)\<lparr>grupo_divergencia_id := Some gid\<rparr>]"
  have st: "marcar gid (p # ps) s = marcar gid ps ?s1" by (simp add: marcar_def)
  from Cons [of ?s1] have len: "length (marcar gid ps ?s1) = length s"
    and nth: "\<And>j. j < length s \<Longrightarrow> marcar gid ps ?s1 ! j =
         (if j \<in> set ps then (?s1 ! j)\<lparr>grupo_divergencia_id := Some gid\<rparr> else ?s1 ! j)"
    by simp_all
  have upd: "?s1 ! j = (if j = p then (s ! p)\<lparr>grupo_divergencia_id := Some gid\<rparr> else s ! j)"
    if "j < length s" for j
  proof (cases "p < length s")
    case True
    then show ?thesis by (auto simp: nth_list_update)
  next
    case False
    then show ?thesis using that by (simp add: list_update_beyond)
  qed
  have "marcar gid ps ?s1 ! j =
         (if j \<in> set (p # ps) then (s ! j)\<lparr>grupo_divergencia_id := Some gid\<rparr> else s ! j)"
    if "j < length s" for j
    using nth [OF that] upd [OF that] by (cases "j = p") simp_all
  then show ?case unfolding st using len by simp
qed

lemma numerar_grupos_spec:
  assumes "\<forall>(k, ps) \<in> set G. ps \<noteq> []"
  shows "\<exists>store' numerados'. numerar_grupos G gid store numerados = Inr (store', numerados')
           \<and> length store' = length store
           \<and> (\<forall>j < length store. store' ! j =
                 (case atribuido G gid j of
                    None \<Rightarrow> store ! j
                  | Some x \<Rightarrow> (store ! j)\<lparr>grupo_divergencia_id := Some x\<rparr>))"
  using assms
proof (induction G arbitrary: gid store numerados)
  case Nil
  show ?case by simp
next
  case (Cons e G)
  obtain k ps where e: "e = (k, ps)" by (cases e)
  have ne: "ps \<noteq> []" using Cons.prems e by auto
  let ?s1 = "marcar gid ps store"
  have rest: "\<forall>(k, ps) \<in> set G. ps \<noteq> []" using Cons.prems by simp
  have step: "numerar_grupos (e # G) gid store numerados =
              numerar_grupos G (gid + 1) ?s1 (dict_set numerados gid ps)"
  proof (cases "length ps \<ge> 2")
    case True
    then show ?thesis by (simp add: e)
  next
    case False
    then obtain i where "ps = [i]" using ne
      by (cases ps) (auto simp: not_le less_Suc_eq_le)
    then show ?thesis by (simp add: e)
  qed
  from Cons.IH [OF rest, of "gid + 1" ?s1 "dict_set numerados gid ps"]
  obtain store' numerados' where
    run: "numerar_grupos G (gid + 1) ?s1 (dict_set numerados gid ps) = Inr (store', numerados')"
    and len: "length store' = length ?s1"
    and nth: "\<forall>j < length ?s1. store' ! j =
                 (case atribuido G (gid + 1) j of
                    None \<Rightarrow> ?s1 ! j
                  | Some x \<Rightarrow> (?s1 ! j)\<lparr>grupo_divergencia_id := Some x\<rparr>)"
    by blast
  from marcar_spec [of gid ps store] have l1: "length ?s1 = length store"
    and n1: "\<And>j. j < length store \<Longrightarrow> ?s1 ! j =
         (if j \<in> set ps then (store ! j)\<lparr>grupo_divergencia_id := Some gid\<rparr> else store ! j)"
    by simp_all
  have "\<forall>j < length store. store' ! j =
                 (case atribuido (e # G) gid j of
                    None \<Rightarrow> store ! j
                  | Some x \<Rightarrow> (store ! j)\<lparr>grupo_divergencia_id := Some x\<rparr>)"
    using nth l1 n1 by (auto simp: e split: option.splits)
  then show ?case using run len l1 step by auto
qed

lemma atribuido_grupos:
  assumes "distinct K" "j < length ks"
  shows "atribuido (map (\<lambda>k. (k, posicoes_da_chave ks k)) K) gid j =
           (if ks ! j \<in> set K then Some (gid + int (indice_de (ks ! j) K)) else None)"
  using assms
proof (induction K arbitrary: gid)
  case Nil
  show ?case by simp
next
  case (Cons x K)
  then have ih: "atribuido (map (\<lambda>k. (k, posicoes_da_chave ks k)) K) (gid + 1) j =
           (if ks ! j \<in> set K then Some (gid + 1 + int (indice_de (ks ! j) K)) else None)"
    by simp
  have nx: "x \<notin> set K" using Cons.prems by simp
  show ?case using ih nx Cons.prems(2)
    by (auto simp: set_posicoes_da_chave)
qed

lemma indice_de_nth: "distinct K \<Longrightarrow> i < length K \<Longrightarrow> indice_de (K ! i) K = i"
proof (induction K arbitrary: i)
  case Nil
  then show ?case by simp
next
  case (Cons x K)
  then show ?case by (cases i) auto
qed

lemma nth_indice_de: "k \<in> set K \<Longrightarrow> indice_de k K < length K \<and> K ! indice_de k K = k"
  by (induction K) auto

lemma indice_de_inj:
  "a \<in> set K \<Longrightarrow> b \<in> set K \<Longrightarrow> (indice_de a K = indice_de b K) = (a = b)"
  by (metis nth_indice_de)

lemma map_indice_de: "distinct K \<Longrightarrow> map (\<lambda>k. indice_de k K) K = [0..<length K]"
  by (rule nth_equalityI) (simp_all add: indice_de_nth)

lemma remdups_map_inj_on: "inj_on f (set xs) \<Longrightarrow> remdups (map f xs) = map f (remdups xs)"
proof (induction xs)
  case Nil
  then show ?case by simp
next
  case (Cons x xs)
  then have "inj_on f (set xs)" by (simp add: inj_on_def)
  moreover have "(f x \<in> f ` set xs) = (x \<in> set xs)"
    using Cons.prems by (auto simp: inj_on_def)
  ultimately show ?case using Cons.IH by simp
qed

lemma ordem_primeiro_encontro_map:
  "inj_on f (set xs) \<Longrightarrow> ordem_primeiro_encontro (map f xs) = map f (ordem_primeiro_encontro xs)"
  by (simp add: ordem_primeiro_encontro_def rev_map remdups_map_inj_on)

lemma numerar_grupos_passo:
  assumes "ps \<noteq> []"
  shows "numerar_grupos ((k, ps) # G) gid store numerados =
         numerar_grupos G (gid + 1) (marcar gid ps store) (dict_set numerados gid ps)"
proof (cases "length ps \<ge> 2")
  case True
  then show ?thesis by simp
next
  case False
  then obtain i where "ps = [i]" using assms
    by (cases ps) (auto simp: not_le less_Suc_eq_le)
  then show ?thesis by simp
qed

lemma numerar_grupos_numerados:
  assumes "\<forall>(k, ps) \<in> set G. ps \<noteq> []" "\<forall>g \<in> fst ` set numerados. g < gid"
  shows "\<exists>store'. numerar_grupos G gid store numerados =
           Inr (store', numerados @ zip (map (\<lambda>i. gid + int i) [0..<length G]) (map snd G))"
  using assms
proof (induction G arbitrary: gid store numerados)
  case Nil
  show ?case by simp
next
  case (Cons e G)
  obtain k ps where e: "e = (k, ps)" by (cases e)
  have ne: "ps \<noteq> []" using Cons.prems(1) e by auto
  have rest: "\<forall>(k, ps) \<in> set G. ps \<noteq> []" using Cons.prems(1) by simp
  have "gid \<notin> fst ` set numerados" using Cons.prems(2) by auto
  then have ds: "dict_set numerados gid ps = numerados @ [(gid, ps)]" by (rule dict_set_novo)
  have small: "\<forall>g \<in> fst ` set (numerados @ [(gid, ps)]). g < gid + 1"
    using Cons.prems(2) by auto
  from Cons.IH [OF rest small, of "marcar gid ps store"] obtain store' where
    run: "numerar_grupos G (gid + 1) (marcar gid ps store) (numerados @ [(gid, ps)]) =
           Inr (store', (numerados @ [(gid, ps)]) @
                  zip (map (\<lambda>i. gid + 1 + int i) [0..<length G]) (map snd G))"
    by blast
  have ids: "map (\<lambda>i. gid + int i) [0..<length (e # G)] = gid # map (\<lambda>i. gid + 1 + int i) [0..<length G]"
    by (simp add: upt_conv_Cons map_Suc_upt [symmetric] del: upt_Suc)
  have "numerar_grupos (e # G) gid store numerados =
        numerar_grupos G (gid + 1) (marcar gid ps store) (numerados @ [(gid, ps)])"
    unfolding e by (simp only: numerar_grupos_passo [OF ne] ds)
  then show ?case
    using run ids by (simp add: e del: upt_Suc numerar_grupos.simps)
qed

lemma map_int_upt_Suc: "map (\<lambda>i. 1 + int i) [0..<n] = map int [1..<Suc n]"
proof -
  have "map int [1..<Suc n] = map int (map Suc [0..<n])"
    by (simp only: map_Suc_upt One_nat_def)
  then show ?thesis by (simp add: comp_def del: upt_Suc)
qed

text \<open>
  Every DIVERGENTE\_AGRUPADA result that \<open>confrontar_grupo\<close> builds comes from a group
  with combined contributors only, so the lists that \<open>processar_confrontamento\<close> puts
  in that bucket meet the hypothesis of the theorem below.
\<close>

lemma divergente_agrupada_tem_agrupadas:
  assumes "tipo (confrontar_grupo g idx cfg) = ''DIVERGENTE_AGRUPADA''"
  shows "transacoes_agrupadas (grupo (confrontar_grupo g idx cfg)) \<noteq> []
       \<and> transacoes_individuais (grupo (confrontar_grupo g idx cfg)) = []"
proof -
  have g: "grupo (confrontar_grupo g idx cfg) = g"
    by (simp add: confrontar_grupo_def Let_def split: option.split)
  have "tipo_origem g = ''AGRUPADO''"
    using assms by (simp add: confrontar_grupo_def Let_def split: option.splits if_splits)
  then show ?thesis
    unfolding g by (simp add: tipo_origem_def tem_individual_def tem_agrupado_def split: if_splits)
qed

subsection \<open>Divergence groups: identifiers\<close>

text \<open>
  C6. On a list of DIVERGENTE\_AGRUPADA results (each has at least one combined
  contributor) the function returns, every result is left with exactly one
  identifier and is otherwise unchanged, two results have the same identifier exactly
  when the row of their first combined contributor is the same, and the identifiers, in
  the order in which they are first met, are 1, 2, ... up to the number of distinct
  rows; these are also the keys of the returned dict.
\<close>

theorem detectar_grupos_divergentes_agrupadas_ids:
  assumes "\<forall>r \<in> set rs. transacoes_agrupadas (grupo r) \<noteq> []"
  shows "\<exists>rs' numerados. detectar_grupos_divergentes_agrupadas rs = Inr (rs', numerados)
      \<and> length rs' = length rs
      \<and> (\<forall>i < length rs. \<exists>gid. rs' ! i = (rs ! i)\<lparr>grupo_divergencia_id := Some gid\<rparr>)
      \<and> (\<forall>i < length rs. \<forall>j < length rs.
            (grupo_divergencia_id (rs' ! i) = grupo_divergencia_id (rs' ! j))
            = (chave_origem (rs ! i) = chave_origem (rs ! j)))
      \<and> ordem_primeiro_encontro (map (\<lambda>r. the (grupo_divergencia_id r)) rs')
          = map int [1..<Suc (card (chave_origem ` set rs))]
      \<and> map fst numerados = map int [1..<Suc (card (chave_origem ` set rs))]"
proof -
  let ?ks = "map chave_origem rs"
  let ?K = "ordem_primeiro_encontro ?ks"
  let ?G = "map (\<lambda>k. (k, posicoes_da_chave ?ks k)) ?K"
  let ?f = "\<lambda>k. 1 + int (indice_de k ?K)"
  have ag: "agrupar_por_linha rs = ?G" by (rule agrupar_por_linha_spec [OF assms])
  have dK: "distinct ?K" by (rule distinct_ordem_primeiro_encontro)
  have sK: "set ?K = set ?ks" by (rule set_ordem_primeiro_encontro)
  have lK: "length ?K = card (chave_origem ` set rs)"
    using distinct_card [OF dK] sK by simp
  have ne: "\<forall>(k, ps) \<in> set ?G. ps \<noteq> []"
    using sK by (auto simp: posicoes_da_chave_presente)
  from numerar_grupos_spec [OF ne, of 1 rs "[]"] obtain store' numerados' where
    run: "numerar_grupos ?G 1 rs [] = Inr (store', numerados')"
    and len: "length store' = length rs"
    and nth: "\<forall>j < length rs. store' ! j =
                 (case atribuido ?G 1 j of
                    None \<Rightarrow> rs ! j
                  | Some x \<Rightarrow> (rs ! j)\<lparr>grupo_divergencia_id := Some x\<rparr>)"
    by blast
  from numerar_grupos_numerados [OF ne, of "[]" 1 rs] run
  have num: "numerados' = zip (map (\<lambda>i. 1 + int i) [0..<length ?G]) (map snd ?G)"
    by auto
  have at: "atribuido ?G 1 j = Some (?f (chave_origem (rs ! j)))" if "j < length rs" for j
  proof -
    have "j < length ?ks" using that by simp
    from atribuido_grupos [OF dK this, of 1] show ?thesis
      using that sK by simp
  qed
  have st: "store' ! j = (rs ! j)\<lparr>grupo_divergencia_id := Some (?f (chave_origem (rs ! j)))\<rparr>"
    if "j < length rs" for j
    using nth that at [OF that] by simp
  have a: "\<forall>i < length rs. \<exists>gid. store' ! i = (rs ! i)\<lparr>grupo_divergencia_id := Some gid\<rparr>"
    using st by blast
  have inK: "chave_origem (rs ! j) \<in> set ?K" if "j < length rs" for j
    using that sK by simp
  have b: "\<forall>i < length rs. \<forall>j < length rs.
            (grupo_divergencia_id (store' ! i) = grupo_divergencia_id (store' ! j))
            = (chave_origem (rs ! i) = chave_origem (rs ! j))"
    using st inK by (simp add: indice_de_inj)
  have ids: "map (\<lambda>r. the (grupo_divergencia_id r)) store' = map ?f ?ks"
    using len st by (auto intro: nth_equalityI)
  have inj: "inj_on ?f (set ?ks)"
    using sK by (auto simp: inj_on_def indice_de_inj)
  have "ordem_primeiro_encontro (map ?f ?ks) = map ?f ?K"
    by (rule ordem_primeiro_encontro_map [OF inj])
  also have "\<dots> = map (\<lambda>i. 1 + int i) (map (\<lambda>k. indice_de k ?K) ?K)" by simp
  also have "\<dots> = map (\<lambda>i. 1 + int i) [0..<length ?K]"
    by (simp only: map_indice_de [OF dK])
  also have "\<dots> = map int [1..<Suc (card (chave_origem ` set rs))]"
    by (simp only: map_int_upt_Suc lK)
  finally have c: "ordem_primeiro_encontro (map (\<lambda>r. the (grupo_divergencia_id r)) store')
          = map int [1..<Suc (card (chave_origem ` set rs))]"
    by (simp only: ids)
  have "map fst numerados' = map (\<lambda>i. 1 + int i) [0..<length ?K]"
    unfolding num by simp
  then have d: "map fst numerados' = map int [1..<Suc (card (chave_origem ` set rs))]"
    by (simp only: map_int_upt_Suc lK)
  have res: "detectar_grupos_divergentes_agrupadas rs =
      Inr (store', map (\<lambda>(gid, posicoes). (gid, map (\<lambda>i. store' ! i) posicoes)) numerados')"
    by (simp add: detectar_grupos_divergentes_agrupadas_def ag run)
  have d': "map fst (map (\<lambda>(gid, posicoes). (gid, map (\<lambda>i. store' ! i) posicoes)) numerados')
      = map int [1..<Suc (card (chave_origem ` set rs))]"
    using d by (simp add: case_prod_unfold comp_def)
  show ?thesis using res len a b c d' by blast
qed

lemma chave_origem_exemplo: "chave_origem (resultado_exemplo num (transacao_exemplo nums v l)) = l"
  by (simp add: chave_origem_def resultado_exemplo_def transacao_exemplo_def)

theorem detectar_grupos_divergentes_agrupadas_ids_witness:
  "\<exists>rs' numerados. detectar_grupos_divergentes_agrupadas resultados_exemplo = Inr (rs', numerados)
      \<and> length rs' = 3
      \<and> grupo_divergencia_id (rs' ! 0) = grupo_divergencia_id (rs' ! 1)
      \<and> grupo_divergencia_id (rs' ! 0) \<noteq> grupo_divergencia_id (rs' ! 2)
      \<and> ordem_primeiro_encontro (map (\<lambda>r. the (grupo_divergencia_id r)) rs') = [1, 2]
      \<and> map fst numerados = [1, 2]"
proof -
  have h: "\<forall>r \<in> set resultados_exemplo. transacoes_agrupadas (grupo r) \<noteq> []"
    by (simp add: resultados_exemplo_def resultado_exemplo_def)
  have len: "length resultados_exemplo = 3" by (simp add: resultados_exemplo_def)
  have k: "chave_origem (resultados_exemplo ! 0) = 4" "chave_origem (resultados_exemplo ! Suc 0) = 4"
    "chave_origem (resultados_exemplo ! 2) = 3"
    by (simp_all add: resultados_exemplo_def chave_origem_exemplo)
  have "chave_origem ` set resultados_exemplo = {3, 4}"
    by (auto simp: resultados_exemplo_def chave_origem_exemplo)
  then have c: "card (chave_origem ` set resultados_exemplo) = 2" by simp
  have u: "map int [Suc 0..<3] = [1, 2]" by (simp add: upt_rec)
  from detectar_grupos_divergentes_agrupadas_ids [OF h] obtain rs' numerados where
    r: "detectar_grupos_divergentes_agrupadas resultados_exemplo = Inr (rs', numerados)"
    "length rs' = length resultados_exemplo"
    "\<forall>i < length resultados_exemplo. \<forall>j < length resultados_exemplo.
            (grupo_divergencia_id (rs' ! i) = grupo_divergencia_id (rs' ! j))
            = (chave_origem (resultados_exemplo ! i) = chave_origem (resultados_exemplo ! j))"
    "ordem_primeiro_encontro (map (\<lambda>r. the (grupo_divergencia_id r)) rs')
          = map int [1..<Suc (card (chave_origem ` set resultados_exemplo))]"
    "map fst numerados = map int [1..<Suc (card (chave_origem ` set resultados_exemplo))]"
    by blast
  have e01: "grupo_divergencia_id (rs' ! 0) = grupo_divergencia_id (rs' ! Suc 0)"
    using r(3) [rule_format, of 0 "Suc 0"] by (simp add: len k)
  have e02: "grupo_divergencia_id (rs' ! 0) \<noteq> grupo_divergencia_id (rs' ! 2)"
    using r(3) [rule_format, of 0 2] by (simp add: len k)
  show ?thesis
    using r(1,2,4,5) e01 e02 by (simp add: len c u)
qed

subsection \<open>Rounding to cents and the precision of quantize\<close>

lemma floor_meio: "\<lfloor>rat_of_int k + 1 / 2\<rfloor> = k"
  by linarith

lemma quantize_2_of_int: "quantize_2 (of_int n) = of_int n"
proof (cases "n \<ge> 0")
  case True
  have "\<lfloor>rat_of_int n * 100 + 1 / 2\<rfloor> = n * 100"
    using floor_meio [of "n * 100"] by simp
  then show ?thesis using True by (simp add: quantize_2_def)
next
  case False
  have "\<lfloor>- rat_of_int n * 100 + 1 / 2\<rfloor> = - n * 100"
    using floor_meio [of "- n * 100"] by simp
  then show ?thesis using False by (simp add: quantize_2_def)
qed

lemma cabe_of_int: "cabe_na_precisao (of_int n) = (\<bar>n\<bar> < 10 ^ 26)"
proof -
  have "\<lfloor>\<bar>rat_of_int n\<bar> * 100 + 1 / 2\<rfloor> = \<bar>n\<bar> * 100"
    using floor_meio [of "\<bar>n\<bar> * 100"] by simp
  then show ?thesis by (simp add: cabe_na_precisao_def)
qed

lemma quantize_of_int:
  "quantize (Finito (of_int n)) =
     (if \<bar>n\<bar> < 10 ^ 26 then Inr (Finito (of_int n)) else Inl InvalidOperation)"
  by (simp add: quantize_def cabe_of_int quantize_2_of_int)

subsection \<open>Summary arithmetic and the declared total\<close>

lemma valor_boleto_nova_transacao:
  "valor_boleto (nova_transacao lib config l cels d v) = v"
  by (simp add: nova_transacao_def split: prod.split)

lemma carregar_linha_total:
  assumes "carregar_linha lib config lc st = Some st'"
    and "valor_total_boleto st = sum_list (map valor_boleto (transacoes st))"
  shows "valor_total_boleto st' = sum_list (map valor_boleto (transacoes st'))"
  using assms
  by (auto simp: carregar_linha_def valor_boleto_nova_transacao
      split: prod.splits if_splits option.splits sum.splits pydecimal.splits)

lemma carregar_linhas_total:
  "carregar_linhas lib config lcs st = Some st' \<Longrightarrow>
   valor_total_boleto st = sum_list (map valor_boleto (transacoes st)) \<Longrightarrow>
   valor_total_boleto st' = sum_list (map valor_boleto (transacoes st'))"
proof (induction lcs arbitrary: st)
  case Nil
  then show ?case by simp
next
  case (Cons lc lcs)
  from Cons.prems(1) obtain st1 where
    s1: "carregar_linha lib config lc st = Some st1"
    and s2: "carregar_linhas lib config lcs st1 = Some st'"
    by (auto split: option.splits)
  show ?case by (rule Cons.IH [OF s2 carregar_linha_total [OF s1 Cons.prems(2)]])
qed

lemma carregar_total:
  assumes "carregar_transacoes_da_planilha lib planilha config = Some (ts, d)"
  shows "d = sum_list (map valor_boleto ts)"
proof -
  from assms obtain st where
    st: "carregar_linhas lib config (zip (map int [2..<2 + length planilha]) planilha)
           \<lparr> transacoes = [], erros = 0, valor_total_boleto = 0 \<rparr> = Some st"
    and r: "ts = transacoes st" "d = valor_total_boleto st"
    by (auto simp: carregar_transacoes_da_planilha_def split: option.splits)
  show ?thesis using carregar_linhas_total [OF st] r by simp
qed

lemma carregar_linha_finito:
  "valor_finito lib (snd lc) \<Longrightarrow> \<exists>st'. carregar_linha lib config lc st = Some st'"
  by (auto simp: carregar_linha_def valor_finito_def
      split: prod.splits option.splits sum.splits pydecimal.splits)

lemma carregar_linhas_finito:
  "list_all (valor_finito lib) (map snd lcs) \<Longrightarrow>
   \<exists>st'. carregar_linhas lib config lcs st = Some st'"
proof (induction lcs arbitrary: st)
  case Nil
  then show ?case by simp
next
  case (Cons lc lcs)
  from Cons.prems have a: "valor_finito lib (snd lc)"
    and b: "list_all (valor_finito lib) (map snd lcs)" by simp_all
  from carregar_linha_finito [OF a] obtain st1 where
    s1: "carregar_linha lib config lc st = Some st1" by blast
  from Cons.IH [OF b] obtain st2 where "carregar_linhas lib config lcs st1 = Some st2" by blast
  then show ?case using s1 by simp
qed

lemma carregar_finito:
  assumes "list_all (valor_finito lib) planilha"
  shows "\<exists>ts d. carregar_transacoes_da_planilha lib planilha config = Some (ts, d)"
proof -
  have "map snd (zip (map int [2..<2 + length planilha]) planilha) = planilha"
    by (rule map_snd_zip) (simp only: length_map length_upt add_diff_cancel_left')
  then have "list_all (valor_finito lib)
               (map snd (zip (map int [2..<2 + length planilha]) planilha))"
    using assms by simp
  from carregar_linhas_finito [OF this] obtain st where
    "carregar_linhas lib config (zip (map int [2..<2 + length planilha]) planilha)
       \<lparr> transacoes = [], erros = 0, valor_total_boleto = 0 \<rparr> = Some st" by blast
  then show ?thesis by (simp add: carregar_transacoes_da_planilha_def)
qed

lemma soma_com_excluidas:
  "sum_list (map valor_boleto ts) =
     soma_nao_excluidas ts
     + sum_list (map valor_boleto (filter (\<lambda>t. eh_cancelamento t \<or> eh_estorno t) ts))"
  by (induction ts) (auto simp: soma_nao_excluidas_def nao_excluida_def)

lemma soma_nfe_map_filter: "soma_nfe rs = sum_list (map valor (List.map_filter nfe rs))"
  unfolding soma_nfe_def by (induction rs) (auto simp: List.map_filter_simps)

text \<open>
  C1, as amended. For every dict with the five buckets, \<open>gerar_resumo\<close> returns a summary
  in which IDENTICA, DIVERGENTE\_AGRUPADA, DIVERGENTE and NAO\_ENCONTRADA are the sums of
  the allocated values of their groups, DESCONSIDERADA is the sum of the values of the
  matched invoices, the total is the first four sums minus the NAO\_ENCONTRADA sum, the
  payable amount is the total minus the DESCONSIDERADA sum, and the validation
  difference is the absolute difference between the payable amount and the declared
  total. The ingestion returns a result whenever no value cell converts to a NaN or an
  infinity, and the declared total that it returns is the sum of the billed values of
  all the transactions it returns, those flagged as a cancellation or a reversal
  included: it is the sum over the transactions that are not excluded plus the sum over
  the flagged ones.
\<close>

theorem gerar_resumo_aritmetica:
  assumes "map_of resultados ''IDENTICA'' = Some rs_identica"
    and "map_of resultados ''DIVERGENTE_AGRUPADA'' = Some rs_agrupada"
    and "map_of resultados ''DIVERGENTE'' = Some rs_divergente"
    and "map_of resultados ''DESCONSIDERADA'' = Some rs_desconsiderada"
    and "map_of resultados ''NAO_ENCONTRADA'' = Some rs_nao_encontrada"
  shows "(\<exists>r. gerar_resumo resultados declarado cancelado estornado = Inr r
      \<and> identicas r = sum_list (map (\<lambda>x. valor_planilha (grupo x)) rs_identica)
      \<and> agrupadas r = sum_list (map (\<lambda>x. valor_planilha (grupo x)) rs_agrupada)
      \<and> divergentes r = sum_list (map (\<lambda>x. valor_planilha (grupo x)) rs_divergente)
      \<and> desconsideradas r = sum_list (map valor (List.map_filter nfe rs_desconsiderada))
      \<and> nao_encontradas r = sum_list (map (\<lambda>x. valor_planilha (grupo x)) rs_nao_encontrada)
      \<and> total_resumo r =
          identicas r + agrupadas r + divergentes r + desconsideradas r - nao_encontradas r
      \<and> valor_a_pagar r = total_resumo r - desconsideradas r
      \<and> diferenca_validacao r = \<bar>valor_a_pagar r - declarado\<bar>
      \<and> valor_do_boleto r = declarado)
    \<and> (list_all (valor_finito lib) planilha \<longrightarrow>
          (\<exists>ts d. carregar_transacoes_da_planilha lib planilha config = Some (ts, d)))
    \<and> (\<forall>ts d. carregar_transacoes_da_planilha lib planilha config = Some (ts, d) \<longrightarrow>
          d = sum_list (map valor_boleto ts)
          \<and> d = soma_nao_excluidas ts
                + sum_list (map valor_boleto
                    (filter (\<lambda>t. eh_cancelamento t \<or> eh_estorno t) ts)))"
proof -
  have a: "\<exists>r. gerar_resumo resultados declarado cancelado estornado = Inr r
      \<and> identicas r = sum_list (map (\<lambda>x. valor_planilha (grupo x)) rs_identica)
      \<and> agrupadas r = sum_list (map (\<lambda>x. valor_planilha (grupo x)) rs_agrupada)
      \<and> divergentes r = sum_list (map (\<lambda>x. valor_planilha (grupo x)) rs_divergente)
      \<and> desconsideradas r = sum_list (map valor (List.map_filter nfe rs_desconsiderada))
      \<and> nao_encontradas r = sum_list (map (\<lambda>x. valor_planilha (grupo x)) rs_nao_encontrada)
      \<and> total_resumo r =
          identicas r + agrupadas r + divergentes r + desconsideradas r - nao_encontradas r
      \<and> valor_a_pagar r = total_resumo r - desconsideradas r
      \<and> diferenca_validacao r = \<bar>valor_a_pagar r - declarado\<bar>
      \<and> valor_do_boleto r = declarado"
    using assms
    by (simp add: gerar_resumo_def dict_lookup_def Let_def soma_planilha_def
        soma_nfe_map_filter [symmetric])
  have b: "list_all (valor_finito lib) planilha \<longrightarrow>
          (\<exists>ts d. carregar_transacoes_da_planilha lib planilha config = Some (ts, d))"
    using carregar_finito by blast
  have c: "\<forall>ts d. carregar_transacoes_da_planilha lib planilha config = Some (ts, d) \<longrightarrow>
          d = sum_list (map valor_boleto ts)
          \<and> d = soma_nao_excluidas ts
                + sum_list (map valor_boleto
                    (filter (\<lambda>t. eh_cancelamento t \<or> eh_estorno t) ts))"
    using carregar_total soma_com_excluidas by metis
  show ?thesis using a b c by blast
qed

lemma strip_id:
  assumes "s \<noteq> []" "\<not> py_isspace (hd s)" "\<not> py_isspace (last s)"
  shows "strip s = s"
proof -
  have a: "dropWhile py_isspace s = s" using assms(1,2) by (cases s) auto
  have "rev s \<noteq> []" "\<not> py_isspace (hd (rev s))"
    using assms(1,3) by (simp_all add: hd_rev)
  then have b: "dropWhile py_isspace (rev s) = rev s" by (cases "rev s") auto
  show ?thesis by (simp add: strip_def a b)
qed

lemma converter_valor_int:
  "\<bar>n\<bar> < 10 ^ 26 \<Longrightarrow> converter_valor lib (PyInt n) = Inr (Finito (of_int n))"
  by (simp add: converter_valor_def quantize_of_int)

lemma carregar_linha_exemplo:
  assumes "texto \<noteq> []" "\<bar>n\<bar> < 10 ^ 26"
  shows "carregar_linha lib config (l, linha_exemplo texto (PyInt n)) st =
         Some (st\<lparr>valor_total_boleto := valor_total_boleto st + of_int n,
            transacoes := transacoes st @
              [nova_transacao lib config l (linha_exemplo texto (PyInt n)) (- 30) (of_int n)]\<rparr>)"
proof -
  have c: "cel_numero_nfe (linha_exemplo texto (PyInt n)) = PyStr texto"
    "cel_data_abastecimento (linha_exemplo texto (PyInt n)) = PyDate (- 30)"
    "cel_valor_boleto (linha_exemplo texto (PyInt n)) = PyInt n"
    by (simp_all add: linha_exemplo_def)
  show ?thesis
    using assms(1)
    by (simp add: carregar_linha_def c converter_data_def converter_valor_int [OF assms(2)])
qed

lemma valor_finito_exemplo:
  "\<bar>n\<bar> < 10 ^ 26 \<Longrightarrow> valor_finito lib (linha_exemplo texto (PyInt n))"
  by (simp add: valor_finito_def linha_exemplo_def converter_valor_int)

lemma exemplo_extrair_individual:
  "extrair_numeros_nfe lib (PyStr ''NFe1001'') = ([''1001''], False, False)"
proof -
  have "strip ''NFe1001'' = ''NFe1001''" by (simp add: strip_id py_isspace_def)
  moreover have "lower ''NFe1001'' = ''nfe1001''" by (simp add: lower_def lower_char_def)
  moreover have "strip ''1001'' = ''1001''" by (simp add: strip_id py_isspace_def)
  ultimately show ?thesis
    by (simp add: extrair_numeros_nfe_def py_str_def Let_def is_digit_def)
qed

lemma exemplo_extrair_cancelado:
  "extrair_numeros_nfe lib (PyStr ''Cancelado'') = ([], True, False)"
proof -
  have "strip ''Cancelado'' = ''Cancelado''" by (simp add: strip_id py_isspace_def)
  moreover have "lower ''Cancelado'' = ''cancelado''" by (simp add: lower_def lower_char_def)
  ultimately show ?thesis
    by (simp add: extrair_numeros_nfe_def py_str_def Let_def)
qed

lemma nova_transacao_exemplo:
  "[nova_transacao lib config_padrao 2 (linha_exemplo ''NFe1001'' v) (- 30) 500,
    nova_transacao lib config_padrao 3 (linha_exemplo ''Cancelado'' w) (- 30) 100]
   = carga_exemplo"
  by (simp add: nova_transacao_def linha_exemplo_def exemplo_extrair_individual
      exemplo_extrair_cancelado carga_exemplo_def py_str_def is_digit_def config_padrao_def)

lemma planilha_exemplo_carga:
  "carregar_transacoes_da_planilha lib_exemplo planilha_exemplo config_padrao
   = Some (carga_exemplo, 600)"
proof -
  have "carregar_linhas lib_exemplo config_padrao
          [(2, linha_exemplo ''NFe1001'' (PyInt 500)), (3, linha_exemplo ''Cancelado'' (PyInt 100))]
          \<lparr> transacoes = [], erros = 0, valor_total_boleto = 0 \<rparr>
        = Some \<lparr> transacoes =
             [nova_transacao lib_exemplo config_padrao 2 (linha_exemplo ''NFe1001'' (PyInt 500)) (- 30) 500,
              nova_transacao lib_exemplo config_padrao 3 (linha_exemplo ''Cancelado'' (PyInt 100)) (- 30) 100],
             erros = 0, valor_total_boleto = 600 \<rparr>"
    by (simp add: carregar_linha_exemplo)
  then show ?thesis
    by (simp add: carregar_transacoes_da_planilha_def planilha_exemplo_def upt_rec
        nova_transacao_exemplo)
qed

lemma carga_exemplo_somas:
  "sum_list (map valor_boleto carga_exemplo) = 600"
  "soma_nao_excluidas carga_exemplo = 500"
  "sum_list (map valor_boleto (filter (\<lambda>t. eh_cancelamento t \<or> eh_estorno t) carga_exemplo)) = 100"
  "map nao_excluida carga_exemplo = [True, False]"
  by (simp_all add: carga_exemplo_def soma_nao_excluidas_def nao_excluida_def)

theorem gerar_resumo_aritmetica_witness:
  "(\<exists>r. gerar_resumo particao_exemplo 600 100 0 = Inr r
      \<and> identicas r = 500 \<and> agrupadas r = 0 \<and> divergentes r = 0
      \<and> desconsideradas r = 210 \<and> nao_encontradas r = 70
      \<and> total_resumo r = 640 \<and> valor_a_pagar r = 430 \<and> diferenca_validacao r = 170
      \<and> valor_do_boleto r = 600)
   \<and> list_all (valor_finito lib_exemplo) planilha_exemplo
   \<and> carregar_transacoes_da_planilha lib_exemplo planilha_exemplo config_padrao
       = Some (carga_exemplo, 600)
   \<and> sum_list (map valor_boleto carga_exemplo) = 600
   \<and> soma_nao_excluidas carga_exemplo
       + sum_list (map valor_boleto
           (filter (\<lambda>t. eh_cancelamento t \<or> eh_estorno t) carga_exemplo)) = 600"
proof -
  have l: "map_of particao_exemplo ''IDENTICA''
             = Some [resultado_simples ''IDENTICA'' 500 (Some (nfe_exemplo ''1001'' 500))]"
    "map_of particao_exemplo ''DIVERGENTE_AGRUPADA'' = Some resultados_exemplo"
    "map_of particao_exemplo ''DIVERGENTE'' = Some []"
    "map_of particao_exemplo ''DESCONSIDERADA''
             = Some [resultado_simples ''DESCONSIDERADA'' 200 (Some (nfe_exemplo ''1001'' 210))]"
    "map_of particao_exemplo ''NAO_ENCONTRADA'' = Some [resultado_simples ''NAO_ENCONTRADA'' 70 None]"
    by (simp_all add: particao_exemplo_def)
  note th = gerar_resumo_aritmetica [OF l, where lib = lib_exemplo and planilha = planilha_exemplo
      and config = config_padrao and cancelado = 100 and estornado = 0 and declarado = 600]
  from th obtain r where r: "gerar_resumo particao_exemplo 600 100 0 = Inr r"
    and v: "identicas r = 500" "agrupadas r = 0" "divergentes r = 0"
      "desconsideradas r = 210" "nao_encontradas r = 70"
    and t: "total_resumo r =
          identicas r + agrupadas r + divergentes r + desconsideradas r - nao_encontradas r"
      "valor_a_pagar r = total_resumo r - desconsideradas r"
      "diferenca_validacao r = \<bar>valor_a_pagar r - 600\<bar>"
      "valor_do_boleto r = 600"
    by (auto simp: resultado_simples_def resultados_exemplo_def
        resultado_exemplo_def grupo_exemplo_def nfe_exemplo_def List.map_filter_simps)
  have a: "\<exists>r. gerar_resumo particao_exemplo 600 100 0 = Inr r
      \<and> identicas r = 500 \<and> agrupadas r = 0 \<and> divergentes r = 0
      \<and> desconsideradas r = 210 \<and> nao_encontradas r = 70
      \<and> total_resumo r = 640 \<and> valor_a_pagar r = 430 \<and> diferenca_validacao r = 170
      \<and> valor_do_boleto r = 600"
    using r v t by simp
  have f: "list_all (valor_finito lib_exemplo) planilha_exemplo"
    by (simp add: planilha_exemplo_def valor_finito_exemplo)
  from th f obtain ts d where
    c: "carregar_transacoes_da_planilha lib_exemplo planilha_exemplo config_padrao = Some (ts, d)"
    by blast
  from th c have s: "d = sum_list (map valor_boleto ts)"
    "d = soma_nao_excluidas ts
         + sum_list (map valor_boleto (filter (\<lambda>t. eh_cancelamento t \<or> eh_estorno t) ts))"
    by blast+
  have e: "ts = carga_exemplo" "d = 600" using c planilha_exemplo_carga by simp_all
  show ?thesis using a f c s unfolding e by simp
qed

text \<open>
  The claim C1 as it was stated fails on the declared total: on a sheet with an
  individual row of 500 and a cancelled row of 100, the declared total that the
  ingestion returns is 600, while the billed values of the transactions that are
  neither a cancellation nor a reversal sum to 500; the cancelled row is counted in the
  declared total and in the cancellation total.
\<close>

theorem valor_total_boleto_inclui_cancelamento:
  "carregar_transacoes_da_planilha lib_exemplo planilha_exemplo config_padrao
     = Some (carga_exemplo, 600)
   \<and> map nao_excluida carga_exemplo = [True, False]
   \<and> soma_nao_excluidas carga_exemplo = 500
   \<and> calcular_cancelamentos_estornos carga_exemplo = (100, 0)"
  by (simp add: planilha_exemplo_carga carga_exemplo_somas)
     (simp add: calcular_cancelamentos_estornos_def carga_exemplo_def Let_def)

subsection \<open>Currency parser: string functions and rounding\<close>

lemma replace_remove_char: "replace [c] [] s = filter (\<lambda>x. x \<noteq> c) s"
proof (induction s)
  case Nil
  show ?case by (subst replace.simps) simp
next
  case (Cons x xs)
  show ?case by (subst replace.simps) (simp add: Cons)
qed

lemma replace_map_char: "replace [c] [d] s = map (\<lambda>x. if x = c then d else x) s"
proof (induction s)
  case Nil
  show ?case by (subst replace.simps) simp
next
  case (Cons x xs)
  show ?case by (subst replace.simps) (simp add: Cons)
qed

lemma rfind_ausente: "c \<notin> set s \<Longrightarrow> rfind s c = - 1"
  by (induction s) (auto simp: Let_def)

lemma rfind_presente:
  "c \<in> set s \<Longrightarrow>
   \<exists>i. rfind s c = int i \<and> i < length s \<and> s ! i = c \<and> (\<forall>j. i < j \<and> j < length s \<longrightarrow> s ! j \<noteq> c)"
proof (induction s)
  case Nil
  then show ?case by simp
next
  case (Cons x xs)
  show ?case
  proof (cases "c \<in> set xs")
    case True
    from Cons.IH [OF True] obtain i where i: "rfind xs c = int i" "i < length xs" "xs ! i = c"
      "\<forall>j. i < j \<and> j < length xs \<longrightarrow> xs ! j \<noteq> c" by blast
    have a: "rfind (x # xs) c = int (Suc i)" using i(1) by (simp add: Let_def)
    have b: "\<forall>j. Suc i < j \<and> j < length (x # xs) \<longrightarrow> (x # xs) ! j \<noteq> c"
    proof (intro allI impI)
      fix j assume j: "Suc i < j \<and> j < length (x # xs)"
      then obtain j' where j': "j = Suc j'" by (cases j) auto
      then show "(x # xs) ! j \<noteq> c" using i(4) j by auto
    qed
    show ?thesis using a b i(2,3) by (intro exI [of _ "Suc i"]) simp
  next
    case False
    then have xc: "x = c" using Cons.prems by simp
    have a: "rfind (x # xs) c = int 0" using rfind_ausente [OF False] xc by (simp add: Let_def)
    have b: "\<forall>j. 0 < j \<and> j < length (x # xs) \<longrightarrow> (x # xs) ! j \<noteq> c"
    proof (intro allI impI)
      fix j assume j: "0 < j \<and> j < length (x # xs)"
      then obtain j' where j': "j = Suc j'" by (cases j) auto
      then have "xs ! j' \<in> set xs" using j by simp
      then show "(x # xs) ! j \<noteq> c" using False j' by auto
    qed
    show ?thesis using a b xc by (intro exI [of _ 0]) simp
  qed
qed

lemma rfind_ultima_posicao:
  assumes "c \<in> set s"
  shows "rfind s c = int (ultima_posicao s c)"
proof -
  from rfind_presente [OF assms] obtain i where i: "rfind s c = int i" "i < length s" "s ! i = c"
    "\<forall>j. i < j \<and> j < length s \<longrightarrow> s ! j \<noteq> c" by blast
  have "Max {k. k < length s \<and> s ! k = c} = i"
  proof (rule Max_eqI)
    show "finite {k. k < length s \<and> s ! k = c}" by simp
    show "i \<in> {k. k < length s \<and> s ! k = c}" using i by simp
    fix y assume "y \<in> {k. k < length s \<and> s ! k = c}"
    then show "y \<le> i" using i(4) by (metis (mono_tags, lifting) mem_Collect_eq not_le_imp_less)
  qed
  then show ?thesis using i(1) by (simp add: ultima_posicao_def)
qed

lemma normalizar_separadores_ambos:
  assumes "CHR '','' \<in> set v" "CHR ''.'' \<in> set v"
  shows "normalizar_separadores v =
           (if ultima_posicao v CHR '','' > ultima_posicao v CHR ''.''
            then formato_brasileiro v else formato_internacional v)"
proof -
  have r: "replace '','' ''.'' (replace ''.'' '''' v) = formato_brasileiro v"
    "replace '','' '''' v = formato_internacional v"
    by (simp_all add: replace_remove_char replace_map_char formato_brasileiro_def
        formato_internacional_def)
  show ?thesis
    using assms
    by (simp add: normalizar_separadores_def Let_def r rfind_ultima_posicao)
qed

lemma quantize_2_centavos:
  "\<exists>k::int. quantize_2 x = of_int k / 100"
  by (auto simp: quantize_2_def) (metis of_int_minus)+

lemma quantize_2_piso:
  "\<exists>f::int. quantize_2 x * 100 = (if x \<ge> 0 then of_int f else - of_int f)
      \<and> of_int f \<le> \<bar>x\<bar> * 100 + 1 / 2 \<and> \<bar>x\<bar> * 100 + 1 / 2 < of_int f + 1"
proof (cases "x \<ge> 0")
  case True
  define f where "f = \<lfloor>x * 100 + 1 / 2\<rfloor>"
  have "of_int f \<le> x * 100 + 1 / 2" "x * 100 + 1 / 2 < of_int f + 1"
    unfolding f_def by linarith+
  moreover have "quantize_2 x * 100 = of_int f" using True by (simp add: quantize_2_def f_def)
  ultimately show ?thesis using True by (intro exI [of _ f]) simp
next
  case False
  define f where "f = \<lfloor>- x * 100 + 1 / 2\<rfloor>"
  have "of_int f \<le> - x * 100 + 1 / 2" "- x * 100 + 1 / 2 < of_int f + 1"
    unfolding f_def by linarith+
  moreover have "quantize_2 x * 100 = - of_int f" using False by (simp add: quantize_2_def f_def)
  ultimately show ?thesis using False by (intro exI [of _ f]) simp
qed

lemma quantize_2_limites:
  "(x \<ge> 0 \<longrightarrow> x - 1 / 200 < quantize_2 x \<and> quantize_2 x \<le> x + 1 / 200)
   \<and> (x < 0 \<longrightarrow> x - 1 / 200 \<le> quantize_2 x \<and> quantize_2 x < x + 1 / 200)"
proof -
  from quantize_2_piso [of x] obtain f :: int where
    f: "quantize_2 x * 100 = (if x \<ge> 0 then of_int f else - of_int f)"
    "of_int f \<le> \<bar>x\<bar> * 100 + 1 / 2" "\<bar>x\<bar> * 100 + 1 / 2 < of_int f + 1" by blast
  show ?thesis
  proof (cases "x \<ge> 0")
    case True
    have "quantize_2 x * 100 = of_int f" "of_int f \<le> x * 100 + 1 / 2"
      "x * 100 + 1 / 2 < of_int f + 1"
      using f True by simp_all
    then have "x - 1 / 200 < quantize_2 x" "quantize_2 x \<le> x + 1 / 200" by linarith+
    then show ?thesis using True by simp
  next
    case False
    have "quantize_2 x * 100 = - of_int f" "of_int f \<le> - x * 100 + 1 / 2"
      "- x * 100 + 1 / 2 < of_int f + 1"
      using f False by simp_all
    then have "x - 1 / 200 \<le> quantize_2 x" "quantize_2 x < x + 1 / 200" by linarith+
    then show ?thesis using False by simp
  qed
qed

lemma quantize_2_proximo: "\<bar>quantize_2 x - x\<bar> \<le> 1 / 200"
proof (cases "x \<ge> 0")
  case True
  then have "x - 1 / 200 < quantize_2 x" "quantize_2 x \<le> x + 1 / 200"
    using quantize_2_limites [of x] by simp_all
  then show ?thesis by linarith
next
  case False
  then have "x - 1 / 200 \<le> quantize_2 x" "quantize_2 x < x + 1 / 200"
    using quantize_2_limites [of x] by simp_all
  then show ?thesis by linarith
qed

lemma quantize_2_empate:
  assumes "\<bar>quantize_2 x - x\<bar> = 1 / 200"
  shows "\<bar>x\<bar> < \<bar>quantize_2 x\<bar>"
proof (cases "x \<ge> 0")
  case True
  then have "x - 1 / 200 < quantize_2 x" using quantize_2_limites [of x] by simp
  then have "quantize_2 x - x = 1 / 200" using assms by linarith
  then show ?thesis using True by linarith
next
  case False
  then have "quantize_2 x < x + 1 / 200" using quantize_2_limites [of x] by simp
  then have "quantize_2 x - x = - (1 / 200)" using assms by linarith
  then show ?thesis using False by linarith
qed

lemma quantize_2_exato:
  assumes "x * 100 = of_int k"
  shows "quantize_2 x = x"
proof -
  have x: "x = of_int k / 100" using assms by (simp add: field_simps)
  have "quantize_2 (of_int k / 100) = of_int k / 100"
  proof (cases "k \<ge> 0")
    case True
    have "\<lfloor>rat_of_int k + 1 / 2\<rfloor> = k" by (rule floor_meio)
    then show ?thesis using True by (simp add: quantize_2_def)
  next
    case False
    have "\<lfloor>rat_of_int (- k) + 1 / 2\<rfloor> = - k" by (rule floor_meio)
    then show ?thesis using False by (simp add: quantize_2_def)
  qed
  then show ?thesis unfolding x .
qed

lemma cabe_quantize_2: "cabe_na_precisao x = (\<bar>quantize_2 x\<bar> < 10 ^ 26)"
proof (cases "x \<ge> 0")
  case True
  define f where "f = \<lfloor>x * 100 + 1 / 2\<rfloor>"
  have "f \<ge> 0" unfolding f_def using True by simp
  then have "\<bar>rat_of_int f / 100\<bar> = rat_of_int f / 100" by simp
  moreover have "(rat_of_int f / 100 < 10 ^ 26) = (f < 10 ^ 28)"
  proof -
    have "(rat_of_int f / 100 < 10 ^ 26) = (rat_of_int f < rat_of_int (10 ^ 28))" by simp
    then show ?thesis by (simp only: of_int_less_iff)
  qed
  ultimately show ?thesis using True by (simp add: cabe_na_precisao_def quantize_2_def f_def)
next
  case False
  define f where "f = \<lfloor>- x * 100 + 1 / 2\<rfloor>"
  have "f \<ge> 0" unfolding f_def using False by simp
  then have "\<bar>- (rat_of_int f / 100)\<bar> = rat_of_int f / 100" by simp
  moreover have "(rat_of_int f / 100 < 10 ^ 26) = (f < 10 ^ 28)"
  proof -
    have "(rat_of_int f / 100 < 10 ^ 26) = (rat_of_int f < rat_of_int (10 ^ 28))" by simp
    then show ?thesis by (simp only: of_int_less_iff)
  qed
  ultimately show ?thesis using False by (simp add: cabe_na_precisao_def quantize_2_def f_def)
qed

subsection \<open>Currency parser: the two implementations\<close>

lemma texto_sem_valor:
  assumes "Decimal_text lib (normalizar_separadores (limpar_prefixo s)) = None"
  shows "converter_valor lib (PyStr s) = Inr (Finito 0)"
    and "ValorMonetario_init lib (PyStr s) = Inl ValueError"
  using assms by (simp_all add: converter_valor_def ValorMonetario_init_def py_str_def)

lemma texto_com_valor:
  assumes "Decimal_text lib (normalizar_separadores (limpar_prefixo s)) = Some d"
  shows "converter_valor lib (PyStr s) =
           (case quantize d of Inl e \<Rightarrow> Inr (Finito 0) | Inr q \<Rightarrow> Inr q)"
    and "ValorMonetario_init lib (PyStr s) = como_ValueError (quantize d)"
  using assms by (simp_all add: converter_valor_def ValorMonetario_init_def py_str_def)

text \<open>
  C8, as amended. Both parsers, \<open>converter_valor\<close> and \<open>ValorMonetario.__init__\<close>, take an
  \<open>int\<close> or a \<open>float\<close> directly and round it half-up to two fractional digits (the
  result is a whole number of cents, at most half a cent away from the argument, a tie
  going away from zero; an \<open>int\<close> is unchanged) as long as the rounded value has at most
  28 digits, that is, is below \<open>10 ** 26\<close> in magnitude. Beyond that, and on an infinite
  \<open>float\<close>, \<open>converter_valor\<close> raises \<open>InvalidOperation\<close> and \<open>ValorMonetario.__init__\<close>
  raises \<open>ValueError\<close>; a NaN \<open>float\<close> is returned as a NaN by both, and a \<open>bool\<close> makes
  \<open>converter_valor\<close> raise. A \<open>Decimal\<close> argument is returned as it is by
  \<open>converter_valor\<close>, and rounded in the same way, with \<open>ValueError\<close> where the rounding
  fails, by \<open>ValorMonetario.__init__\<close>. For a text that, once the currency prefix is
  removed, has both a comma and a dot, both compare the positions of the last comma and
  of the last dot: when the comma is the later one the dots are removed and the commas
  become dots, otherwise the commas are removed. The normalised text is parsed and
  rounded in the same way; a text that parses to a NaN gives a NaN in both. When the
  normalised text is not parseable, or its value cannot be rounded (more than 28
  digits, an infinity, a signalling NaN), \<open>converter_valor\<close> returns zero without
  raising, whereas \<open>ValorMonetario.__init__\<close> raises \<open>ValueError\<close>.
\<close>

theorem analise_de_valores_monetarios:
  assumes "v = limpar_prefixo s" and "t = normalizar_separadores v"
  shows "converter_valor lib (PyInt n) =
           (if \<bar>n\<bar> < 10 ^ 26 then Inr (Finito (of_int n)) else Inl InvalidOperation)
       \<and> ValorMonetario_init lib (PyInt n) =
           (if \<bar>n\<bar> < 10 ^ 26 then Inr (Finito (of_int n)) else Inl ValueError)
       \<and> converter_valor lib (PyBool b) = Inl InvalidOperation
       \<and> converter_valor lib (PyFloat (Float_finito x)) =
           (if cabe_na_precisao x then Inr (Finito (quantize_2 x)) else Inl InvalidOperation)
       \<and> ValorMonetario_init lib (PyFloat (Float_finito x)) =
           (if cabe_na_precisao x then Inr (Finito (quantize_2 x)) else Inl ValueError)
       \<and> converter_valor lib (PyFloat (Float_inf b)) = Inl InvalidOperation
       \<and> ValorMonetario_init lib (PyFloat (Float_inf b)) = Inl ValueError
       \<and> converter_valor lib (PyFloat Float_nan) = Inr QNaN
       \<and> ValorMonetario_init lib (PyFloat Float_nan) = Inr QNaN
       \<and> converter_valor lib (PyDecimal d) = Inr d
       \<and> ValorMonetario_init lib (PyDecimal (Finito x)) =
           (if cabe_na_precisao x then Inr (Finito (quantize_2 x)) else Inl ValueError)
       \<and> ValorMonetario_init lib (PyDecimal (Infinito b)) = Inl ValueError
       \<and> ValorMonetario_init lib (PyDecimal SNaN) = Inl ValueError
       \<and> ValorMonetario_init lib (PyDecimal QNaN) = Inr QNaN
       \<and> cabe_na_precisao x = (\<bar>quantize_2 x\<bar> < 10 ^ 26)
       \<and> (\<exists>k::int. quantize_2 x = of_int k / 100)
       \<and> \<bar>quantize_2 x - x\<bar> \<le> 1 / 200
       \<and> (\<bar>quantize_2 x - x\<bar> = 1 / 200 \<longrightarrow> \<bar>x\<bar> < \<bar>quantize_2 x\<bar>)
       \<and> (CHR '','' \<in> set v \<and> CHR ''.'' \<in> set v \<longrightarrow>
            t = (if ultima_posicao v CHR '','' > ultima_posicao v CHR ''.''
                 then formato_brasileiro v else formato_internacional v))
       \<and> (Decimal_text lib t = Some (Finito y) \<and> cabe_na_precisao y \<longrightarrow>
            converter_valor lib (PyStr s) = Inr (Finito (quantize_2 y))
            \<and> ValorMonetario_init lib (PyStr s) = Inr (Finito (quantize_2 y)))
       \<and> (Decimal_text lib t = Some QNaN \<longrightarrow>
            converter_valor lib (PyStr s) = Inr QNaN
            \<and> ValorMonetario_init lib (PyStr s) = Inr QNaN)
       \<and> (Decimal_text lib t = None
            \<or> Decimal_text lib t = Some (Finito y) \<and> \<not> cabe_na_precisao y
            \<or> Decimal_text lib t = Some (Infinito b)
            \<or> Decimal_text lib t = Some SNaN \<longrightarrow>
            converter_valor lib (PyStr s) = Inr (Finito 0)
            \<and> ValorMonetario_init lib (PyStr s) = Inl ValueError)"
proof -
  have t: "normalizar_separadores (limpar_prefixo s) = t" using assms by simp
  have i: "converter_valor lib (PyInt n) =
           (if \<bar>n\<bar> < 10 ^ 26 then Inr (Finito (of_int n)) else Inl InvalidOperation)"
    "ValorMonetario_init lib (PyInt n) =
           (if \<bar>n\<bar> < 10 ^ 26 then Inr (Finito (of_int n)) else Inl ValueError)"
    "converter_valor lib (PyBool b) = Inl InvalidOperation"
    by (simp_all add: converter_valor_def ValorMonetario_init_def quantize_of_int
        como_ValueError_def)
  have f: "converter_valor lib (PyFloat (Float_finito x)) =
           (if cabe_na_precisao x then Inr (Finito (quantize_2 x)) else Inl InvalidOperation)"
    "ValorMonetario_init lib (PyFloat (Float_finito x)) =
           (if cabe_na_precisao x then Inr (Finito (quantize_2 x)) else Inl ValueError)"
    "converter_valor lib (PyFloat (Float_inf b)) = Inl InvalidOperation"
    "ValorMonetario_init lib (PyFloat (Float_inf b)) = Inl ValueError"
    "converter_valor lib (PyFloat Float_nan) = Inr QNaN"
    "ValorMonetario_init lib (PyFloat Float_nan) = Inr QNaN"
    by (simp_all add: converter_valor_def ValorMonetario_init_def quantize_def
        Decimal_float_def como_ValueError_def)
  have d: "converter_valor lib (PyDecimal d) = Inr d"
    "ValorMonetario_init lib (PyDecimal (Finito x)) =
           (if cabe_na_precisao x then Inr (Finito (quantize_2 x)) else Inl ValueError)"
    "ValorMonetario_init lib (PyDecimal (Infinito b)) = Inl ValueError"
    "ValorMonetario_init lib (PyDecimal SNaN) = Inl ValueError"
    "ValorMonetario_init lib (PyDecimal QNaN) = Inr QNaN"
    by (simp_all add: converter_valor_def ValorMonetario_init_def quantize_def
        como_ValueError_def)
  have q: "cabe_na_precisao x = (\<bar>quantize_2 x\<bar> < 10 ^ 26)"
    "\<exists>k::int. quantize_2 x = of_int k / 100"
    "\<bar>quantize_2 x - x\<bar> \<le> 1 / 200"
    "\<bar>quantize_2 x - x\<bar> = 1 / 200 \<longrightarrow> \<bar>x\<bar> < \<bar>quantize_2 x\<bar>"
    using cabe_quantize_2 quantize_2_centavos quantize_2_proximo quantize_2_empate by blast+
  have n: "CHR '','' \<in> set v \<and> CHR ''.'' \<in> set v \<longrightarrow>
            t = (if ultima_posicao v CHR '','' > ultima_posicao v CHR ''.''
                 then formato_brasileiro v else formato_internacional v)"
    using normalizar_separadores_ambos [of v] assms(2) by simp
  have p1: "converter_valor lib (PyStr s) = Inr (Finito (quantize_2 y))
            \<and> ValorMonetario_init lib (PyStr s) = Inr (Finito (quantize_2 y))"
    if "Decimal_text lib t = Some (Finito y) \<and> cabe_na_precisao y"
    using that texto_com_valor [of lib s "Finito y"] t
    by (simp add: quantize_def como_ValueError_def)
  have p2: "converter_valor lib (PyStr s) = Inr QNaN
            \<and> ValorMonetario_init lib (PyStr s) = Inr QNaN"
    if "Decimal_text lib t = Some QNaN"
    using that texto_com_valor [of lib s QNaN] t
    by (simp add: quantize_def como_ValueError_def)
  have p3: "converter_valor lib (PyStr s) = Inr (Finito 0)
            \<and> ValorMonetario_init lib (PyStr s) = Inl ValueError"
    if "Decimal_text lib t = None
            \<or> Decimal_text lib t = Some (Finito y) \<and> \<not> cabe_na_precisao y
            \<or> Decimal_text lib t = Some (Infinito b)
            \<or> Decimal_text lib t = Some SNaN"
    using that texto_sem_valor [of lib s] texto_com_valor [of lib s "Finito y"]
      texto_com_valor [of lib s "Infinito b"] texto_com_valor [of lib s SNaN] t
    by (auto simp: quantize_def como_ValueError_def)
  show ?thesis using i f d q n p1 p2 p3 by blast
qed

lemma comparar_ultimas_posicoes:
  assumes "CHR '','' \<in> set v" "CHR ''.'' \<in> set v"
  shows "(ultima_posicao v CHR '','' > ultima_posicao v CHR ''.'')
         = (rfind v CHR '','' > rfind v CHR ''.'')"
  using rfind_ultima_posicao [OF assms(1)] rfind_ultima_posicao [OF assms(2)] by simp

lemma exemplo_limpar_brasileiro: "limpar_prefixo ''R$ 1.234,56'' = ''1.234,56''"
proof -
  have "strip ''R$ 1.234,56'' = ''R$ 1.234,56''" by (simp add: strip_id py_isspace_def)
  moreover have "replace ''R$'' '''' ''R$ 1.234,56'' = '' 1.234,56''"
    by (simp add: replace.simps)
  moreover have "replace ''$'' '''' '' 1.234,56'' = '' 1.234,56''"
    by (simp add: replace_remove_char)
  moreover have "strip '' 1.234,56'' = ''1.234,56''"
    by (simp add: strip_def py_isspace_def)
  ultimately show ?thesis by (simp add: limpar_prefixo_def)
qed

lemma exemplo_limpar_internacional: "limpar_prefixo ''1,234.56'' = ''1,234.56''"
proof -
  have "strip ''1,234.56'' = ''1,234.56''" by (simp add: strip_id py_isspace_def)
  moreover have "replace ''R$'' '''' ''1,234.56'' = ''1,234.56''"
    by (simp add: replace.simps)
  moreover have "replace ''$'' '''' ''1,234.56'' = ''1,234.56''"
    by (simp add: replace_remove_char)
  ultimately show ?thesis by (simp add: limpar_prefixo_def)
qed

lemma exemplo_limpar_invalido: "limpar_prefixo ''abc'' = ''abc''"
proof -
  have "strip ''abc'' = ''abc''" by (simp add: strip_id py_isspace_def)
  moreover have "replace ''R$'' '''' ''abc'' = ''abc''"
    by (simp add: replace.simps)
  moreover have "replace ''$'' '''' ''abc'' = ''abc''"
    by (simp add: replace_remove_char)
  ultimately show ?thesis by (simp add: limpar_prefixo_def)
qed

lemma exemplo_limpar_expoente: "limpar_prefixo ''1e26'' = ''1e26''"
proof -
  have "strip ''1e26'' = ''1e26''" by (simp add: strip_id py_isspace_def)
  moreover have "replace ''R$'' '''' ''1e26'' = ''1e26''"
    by (simp add: replace.simps)
  moreover have "replace ''$'' '''' ''1e26'' = ''1e26''"
    by (simp add: replace_remove_char)
  ultimately show ?thesis by (simp add: limpar_prefixo_def)
qed

lemma exemplo_limpar_nan: "limpar_prefixo ''NaN'' = ''NaN''"
proof -
  have "strip ''NaN'' = ''NaN''" by (simp add: strip_id py_isspace_def)
  moreover have "replace ''R$'' '''' ''NaN'' = ''NaN''"
    by (simp add: replace.simps)
  moreover have "replace ''$'' '''' ''NaN'' = ''NaN''"
    by (simp add: replace_remove_char)
  ultimately show ?thesis by (simp add: limpar_prefixo_def)
qed

lemma exemplo_normalizar_brasileiro: "normalizar_separadores ''1.234,56'' = ''1234.56''"
  by (simp add: normalizar_separadores_def Let_def replace_remove_char replace_map_char)

lemma exemplo_normalizar_internacional: "normalizar_separadores ''1,234.56'' = ''1234.56''"
  by (simp add: normalizar_separadores_def Let_def replace_remove_char replace_map_char)

lemma exemplo_normalizar_invalido: "normalizar_separadores ''abc'' = ''abc''"
  by (simp add: normalizar_separadores_def)

lemma exemplo_normalizar_expoente: "normalizar_separadores ''1e26'' = ''1e26''"
  by (simp add: normalizar_separadores_def)

lemma exemplo_normalizar_nan: "normalizar_separadores ''NaN'' = ''NaN''"
  by (simp add: normalizar_separadores_def)

lemma exemplo_decimal: "Decimal_text lib_exemplo ''1234.56'' = Some (Finito (123456 / 100))"
proof -
  have "strip ''1234.56'' = ''1234.56''" by (simp add: strip_id py_isspace_def)
  moreover have "lower ''1234.56'' = ''1234.56''" by (simp add: lower_def lower_char_def)
  moreover have "coeficiente_decimal ''1234.56'' = Some (''123456'', 2)"
    by (simp add: coeficiente_decimal_def is_digit_def Let_def)
  moreover have "expoente_decimal ''1234.56'' = Some 0" by (simp add: expoente_decimal_def)
  moreover have "expoente_no_limite ''123456'' (- 2)" by (simp add: expoente_no_limite_def)
  moreover have "valor_digitos ''123456'' = 123456" by (simp add: valor_digitos_def)
  moreover have "potencia_de_dez (- 2) = 1 / 100" by (simp add: potencia_de_dez_def)
  ultimately show ?thesis
    by (simp add: lib_exemplo_def decimal_ascii_def sem_sinal_def)
qed

lemma exemplo_decimal_invalido: "Decimal_text lib_exemplo ''abc'' = None"
proof -
  have "strip ''abc'' = ''abc''" by (simp add: strip_id py_isspace_def)
  moreover have "lower ''abc'' = ''abc''" by (simp add: lower_def lower_char_def)
  moreover have "coeficiente_decimal ''abc'' = None"
    by (simp add: coeficiente_decimal_def is_digit_def Let_def)
  ultimately show ?thesis
    by (simp add: lib_exemplo_def decimal_ascii_def sem_sinal_def)
qed

lemma exemplo_decimal_expoente: "Decimal_text lib_exemplo ''1e26'' = Some (Finito (10 ^ 26))"
proof -
  have "strip ''1e26'' = ''1e26''" by (simp add: strip_id py_isspace_def)
  moreover have "lower ''1e26'' = ''1e26''" by (simp add: lower_def lower_char_def)
  moreover have "coeficiente_decimal ''1'' = Some (''1'', 0)"
    by (simp add: coeficiente_decimal_def is_digit_def Let_def)
  moreover have "valor_digitos ''26'' = 26" "valor_digitos ''1'' = 1"
    by (simp_all add: valor_digitos_def)
  then have "expoente_decimal ''1e26'' = Some 26"
    by (simp add: expoente_decimal_def sem_sinal_def is_digit_def)
  moreover have "expoente_no_limite ''1'' 26" by (simp add: expoente_no_limite_def)
  moreover have "valor_digitos ''1'' = 1" by (simp add: valor_digitos_def)
  moreover have "potencia_de_dez 26 = 10 ^ 26" by (simp add: potencia_de_dez_def)
  ultimately show ?thesis
    by (simp add: lib_exemplo_def decimal_ascii_def sem_sinal_def)
qed

lemma exemplo_decimal_nan: "Decimal_text lib_exemplo ''NaN'' = Some QNaN"
proof -
  have "strip ''NaN'' = ''NaN''" by (simp add: strip_id py_isspace_def)
  moreover have "lower ''NaN'' = ''nan''" by (simp add: lower_def lower_char_def)
  ultimately show ?thesis
    by (simp add: lib_exemplo_def decimal_ascii_def sem_sinal_def)
qed

lemma exemplo_quantize: "quantize_2 (123456 / 100) = 123456 / 100"
  by (rule quantize_2_exato [of _ 123456]) simp

lemma exemplo_quantize_empate: "quantize_2 (1005 / 1000) = 101 / 100"
  by (simp add: quantize_2_def)

lemma exemplo_cabe: "cabe_na_precisao (123456 / 100)" "cabe_na_precisao (1005 / 1000)"
  unfolding cabe_quantize_2 exemplo_quantize exemplo_quantize_empate by simp_all

lemma exemplo_nao_cabe: "\<not> cabe_na_precisao (10 ^ 26)"
  using cabe_of_int [of "10 ^ 26"] by simp

lemma numero_inteiro:
  "converter_valor lib (PyInt n) = quantize (Finito (of_int n))"
  "ValorMonetario_init lib (PyInt n) = como_ValueError (quantize (Finito (of_int n)))"
  by (simp_all add: converter_valor_def ValorMonetario_init_def)

theorem analise_de_valores_monetarios_witness:
  "converter_valor lib_exemplo (PyInt 7) = Inr (Finito 7)
   \<and> ValorMonetario_init lib_exemplo (PyInt 7) = Inr (Finito 7)
   \<and> ValorMonetario_init lib_exemplo (PyInt (10 ^ 26)) = Inl ValueError
   \<and> converter_valor lib_exemplo (PyFloat (Float_finito (1005 / 1000))) = Inr (Finito (101 / 100))
   \<and> \<bar>quantize_2 (1005 / 1000) - 1005 / 1000\<bar> = 1 / 200
   \<and> \<bar>1005 / 1000\<bar> < \<bar>quantize_2 (1005 / 1000)\<bar>
   \<and> converter_valor lib_exemplo (PyFloat (Float_finito (10 ^ 26))) = Inl InvalidOperation
   \<and> ValorMonetario_init lib_exemplo (PyFloat (Float_finito (10 ^ 26))) = Inl ValueError
   \<and> converter_valor lib_exemplo (PyFloat Float_nan) = Inr QNaN
   \<and> converter_valor lib_exemplo (PyDecimal (Finito (1005 / 1000))) = Inr (Finito (1005 / 1000))
   \<and> ValorMonetario_init lib_exemplo (PyDecimal (Finito (1005 / 1000))) = Inr (Finito (101 / 100))
   \<and> ultima_posicao ''1.234,56'' CHR '','' > ultima_posicao ''1.234,56'' CHR ''.''
   \<and> formato_brasileiro ''1.234,56'' = ''1234.56''
   \<and> converter_valor lib_exemplo (PyStr ''R$ 1.234,56'') = Inr (Finito (123456 / 100))
   \<and> ValorMonetario_init lib_exemplo (PyStr ''R$ 1.234,56'') = Inr (Finito (123456 / 100))
   \<and> \<not> ultima_posicao ''1,234.56'' CHR '','' > ultima_posicao ''1,234.56'' CHR ''.''
   \<and> formato_internacional ''1,234.56'' = ''1234.56''
   \<and> converter_valor lib_exemplo (PyStr ''1,234.56'') = Inr (Finito (123456 / 100))
   \<and> ValorMonetario_init lib_exemplo (PyStr ''1,234.56'') = Inr (Finito (123456 / 100))
   \<and> converter_valor lib_exemplo (PyStr ''abc'') = Inr (Finito 0)
   \<and> converter_valor lib_exemplo (PyStr ''1e26'') = Inr (Finito 0)
   \<and> ValorMonetario_init lib_exemplo (PyStr ''1e26'') = Inl ValueError
   \<and> converter_valor lib_exemplo (PyStr ''NaN'') = Inr QNaN
   \<and> ValorMonetario_init lib_exemplo (PyStr ''NaN'') = Inr QNaN"
proof -
  have m1: "CHR '','' \<in> set ''1.234,56'' \<and> CHR ''.'' \<in> set ''1.234,56''" by simp
  have m2: "CHR '','' \<in> set ''1,234.56'' \<and> CHR ''.'' \<in> set ''1,234.56''" by simp
  have p1: "ultima_posicao ''1.234,56'' CHR '','' > ultima_posicao ''1.234,56'' CHR ''.''"
    using comparar_ultimas_posicoes [of "''1.234,56''"] by (simp add: Let_def)
  have p2: "\<not> ultima_posicao ''1,234.56'' CHR '','' > ultima_posicao ''1,234.56'' CHR ''.''"
    using comparar_ultimas_posicoes [of "''1,234.56''"] by (simp add: Let_def)
  have t: "\<bar>quantize_2 (1005 / 1000) - 1005 / 1000\<bar> = 1 / 200"
    unfolding exemplo_quantize_empate by simp
  note br = analise_de_valores_monetarios [OF exemplo_limpar_brasileiro [symmetric]
      exemplo_normalizar_brasileiro [symmetric], where lib = lib_exemplo and n = 7
      and x = "1005 / 1000" and y = "123456 / 100" and d = "Finito (1005 / 1000)" and b = False]
  note us = analise_de_valores_monetarios [OF exemplo_limpar_internacional [symmetric]
      exemplo_normalizar_internacional [symmetric], where lib = lib_exemplo and n = 7
      and x = "1005 / 1000" and y = "123456 / 100" and d = "Finito (1005 / 1000)" and b = False]
  note inv = analise_de_valores_monetarios [OF exemplo_limpar_invalido [symmetric]
      exemplo_normalizar_invalido [symmetric], where lib = lib_exemplo and n = "10 ^ 26"
      and x = "10 ^ 26" and y = 0 and d = QNaN and b = False]
  note ex = analise_de_valores_monetarios [OF exemplo_limpar_expoente [symmetric]
      exemplo_normalizar_expoente [symmetric], where lib = lib_exemplo and n = "10 ^ 26"
      and x = "10 ^ 26" and y = "10 ^ 26" and d = QNaN and b = False]
  note nan = analise_de_valores_monetarios [OF exemplo_limpar_nan [symmetric]
      exemplo_normalizar_nan [symmetric], where lib = lib_exemplo and n = 7
      and x = "10 ^ 26" and y = 0 and d = QNaN and b = False]
  have "converter_valor lib_exemplo (PyInt 7) =
          (if \<bar>7\<bar> < (10::int) ^ 26 then Inr (Finito (of_int 7)) else Inl InvalidOperation)"
    "ValorMonetario_init lib_exemplo (PyInt 7) =
          (if \<bar>7\<bar> < (10::int) ^ 26 then Inr (Finito (of_int 7)) else Inl ValueError)"
    using br by blast+
  then have a: "converter_valor lib_exemplo (PyInt 7) = Inr (Finito 7)"
    "ValorMonetario_init lib_exemplo (PyInt 7) = Inr (Finito 7)"
    by simp_all
  have "ValorMonetario_init lib_exemplo (PyInt (10 ^ 26)) =
          (if \<bar>10 ^ 26\<bar> < (10::int) ^ 26 then Inr (Finito (of_int (10 ^ 26))) else Inl ValueError)"
    using ex by blast
  then have a2: "ValorMonetario_init lib_exemplo (PyInt (10 ^ 26)) = Inl ValueError"
    by simp
  have "converter_valor lib_exemplo (PyFloat (Float_finito (1005 / 1000))) =
           (if cabe_na_precisao (1005 / 1000) then Inr (Finito (quantize_2 (1005 / 1000)))
            else Inl InvalidOperation)"
    "ValorMonetario_init lib_exemplo (PyDecimal (Finito (1005 / 1000))) =
           (if cabe_na_precisao (1005 / 1000) then Inr (Finito (quantize_2 (1005 / 1000)))
            else Inl ValueError)"
    using br by blast+
  then have f1: "converter_valor lib_exemplo (PyFloat (Float_finito (1005 / 1000)))
                   = Inr (Finito (101 / 100))"
    "ValorMonetario_init lib_exemplo (PyDecimal (Finito (1005 / 1000))) = Inr (Finito (101 / 100))"
    by (simp_all only: exemplo_cabe if_True exemplo_quantize_empate)
  have f2: "\<bar>1005 / 1000\<bar> < \<bar>quantize_2 (1005 / 1000)\<bar>"
    using br t by blast
  have "converter_valor lib_exemplo (PyFloat (Float_finito (10 ^ 26))) =
           (if cabe_na_precisao (10 ^ 26) then Inr (Finito (quantize_2 (10 ^ 26)))
            else Inl InvalidOperation)"
    "ValorMonetario_init lib_exemplo (PyFloat (Float_finito (10 ^ 26))) =
           (if cabe_na_precisao (10 ^ 26) then Inr (Finito (quantize_2 (10 ^ 26)))
            else Inl ValueError)"
    using ex by blast+
  then have f3: "converter_valor lib_exemplo (PyFloat (Float_finito (10 ^ 26))) = Inl InvalidOperation"
    "ValorMonetario_init lib_exemplo (PyFloat (Float_finito (10 ^ 26))) = Inl ValueError"
    by (simp_all only: exemplo_nao_cabe if_False)
  have f4: "converter_valor lib_exemplo (PyFloat Float_nan) = Inr QNaN"
    using br by blast
  have d1: "converter_valor lib_exemplo (PyDecimal (Finito (1005 / 1000))) = Inr (Finito (1005 / 1000))"
    using br by blast
  have "''1234.56'' = (if ultima_posicao ''1.234,56'' CHR '','' > ultima_posicao ''1.234,56'' CHR ''.''
                       then formato_brasileiro ''1.234,56'' else formato_internacional ''1.234,56'')"
    using br m1 by blast
  then have n1: "formato_brasileiro ''1.234,56'' = ''1234.56''"
    by (simp only: p1 if_True)
  have "''1234.56'' = (if ultima_posicao ''1,234.56'' CHR '','' > ultima_posicao ''1,234.56'' CHR ''.''
                       then formato_brasileiro ''1,234.56'' else formato_internacional ''1,234.56'')"
    using us m2 by blast
  then have n2: "formato_internacional ''1,234.56'' = ''1234.56''"
    by (simp only: p2 if_False)
  have "converter_valor lib_exemplo (PyStr ''R$ 1.234,56'') = Inr (Finito (quantize_2 (123456 / 100)))"
    "ValorMonetario_init lib_exemplo (PyStr ''R$ 1.234,56'') = Inr (Finito (quantize_2 (123456 / 100)))"
    using br exemplo_decimal exemplo_cabe(1) by blast+
  then have b: "converter_valor lib_exemplo (PyStr ''R$ 1.234,56'') = Inr (Finito (123456 / 100))"
    "ValorMonetario_init lib_exemplo (PyStr ''R$ 1.234,56'') = Inr (Finito (123456 / 100))"
    by (simp_all only: exemplo_quantize)
  have "converter_valor lib_exemplo (PyStr ''1,234.56'') = Inr (Finito (quantize_2 (123456 / 100)))"
    "ValorMonetario_init lib_exemplo (PyStr ''1,234.56'') = Inr (Finito (quantize_2 (123456 / 100)))"
    using us exemplo_decimal exemplo_cabe(1) by blast+
  then have c: "converter_valor lib_exemplo (PyStr ''1,234.56'') = Inr (Finito (123456 / 100))"
    "ValorMonetario_init lib_exemplo (PyStr ''1,234.56'') = Inr (Finito (123456 / 100))"
    by (simp_all only: exemplo_quantize)
  have e1: "converter_valor lib_exemplo (PyStr ''abc'') = Inr (Finito 0)"
    using inv exemplo_decimal_invalido by blast
  have e2: "converter_valor lib_exemplo (PyStr ''1e26'') = Inr (Finito 0)"
    "ValorMonetario_init lib_exemplo (PyStr ''1e26'') = Inl ValueError"
    using ex exemplo_decimal_expoente exemplo_nao_cabe by blast+
  have e3: "converter_valor lib_exemplo (PyStr ''NaN'') = Inr QNaN"
    "ValorMonetario_init lib_exemplo (PyStr ''NaN'') = Inr QNaN"
    using nan exemplo_decimal_nan by blast+
  show ?thesis
    using a a2 f1 t f2 f3 f4 d1 p1 n1 b p2 n2 c e1 e2 e3 by blast
qed

text \<open>
  The claim C8 as it was stated fails in two ways. For \<open>ValorMonetario.__init__\<close>, the
  unparseable text \<open>abc\<close> raises \<open>ValueError\<close> instead of giving zero. For a native
  numeric value whose rounding needs more than 28 digits, here the \<open>int\<close> \<open>10 ** 26\<close>,
  \<open>converter_valor\<close> raises \<open>InvalidOperation\<close> and \<open>ValorMonetario.__init__\<close> raises
  \<open>ValueError\<close> instead of returning the rounded value.
\<close>

theorem valor_monetario_texto_invalido:
  "ValorMonetario_init lib_exemplo (PyStr ''abc'') = Inl ValueError
   \<and> converter_valor lib_exemplo (PyInt (10 ^ 26)) = Inl InvalidOperation
   \<and> ValorMonetario_init lib_exemplo (PyInt (10 ^ 26)) = Inl ValueError"
proof -
  have "ValorMonetario_init lib_exemplo (PyStr ''abc'') = Inl ValueError"
    by (rule texto_sem_valor)
       (simp only: exemplo_limpar_invalido exemplo_normalizar_invalido exemplo_decimal_invalido)
  moreover have "converter_valor lib_exemplo (PyInt (10 ^ 26)) = Inl InvalidOperation"
    "ValorMonetario_init lib_exemplo (PyInt (10 ^ 26)) = Inl ValueError"
    unfolding numero_inteiro quantize_of_int como_ValueError_def by simp_all
  ultimately show ?thesis by blast
qed

end
